theory Spec2Isabelle
  imports Complex_Main
begin

section \<open>Python values used by the converter\<close>

text \<open>
  The converter is \<^verbatim>\<open>ome_tiff_batch_gui_v2.py\<close>. Exceptions are values of
  \<open>py_error\<close>; a function that can raise returns \<open>py_error + 'a\<close>. Python floats
  are modelled by exact reals: rounding of the float operations is not part of the model.
\<close>

datatype py_error =
    ZeroDivisionError
  | ValueError string
  | IndexError
  | FileNotFoundError
  | RuntimeError

subsection \<open>Strings\<close>

fun starts_with :: "string \<Rightarrow> string \<Rightarrow> bool" where
  "starts_with [] s = True"
| "starts_with (p # ps) [] = False"
| "starts_with (p # ps) (c # cs) = (p = c \<and> starts_with ps cs)"

text \<open>Python's \<^verbatim>\<open>sub in s\<close> on strings.\<close>

fun contains :: "string \<Rightarrow> string \<Rightarrow> bool" where
  "contains sub [] = (sub = [])"
| "contains sub (c # cs) = (starts_with sub (c # cs) \<or> contains sub cs)"

text \<open>
  \<^verbatim>\<open>str.strip()\<close> removes white space at both ends. The characters are the ASCII ones
  Python counts as white space (tab to carriage return, the four separators, space).
\<close>

definition is_space :: "char \<Rightarrow> bool" where
  "is_space c = (c \<in> {CHR 0x09, CHR 0x0A, CHR 0x0B, CHR 0x0C, CHR 0x0D,
                        CHR 0x1C, CHR 0x1D, CHR 0x1E, CHR 0x1F, CHR 0x20})"

definition strip :: "string \<Rightarrow> string" where
  "strip s = rev (dropWhile is_space (rev (dropWhile is_space s)))"

text \<open>
  \<^verbatim>\<open>s.split(sep)\<close> for a non-empty separator: the string is scanned from the left and cut
  at every occurrence of \<open>sep\<close>, occurrences not overlapping. \<open>cur\<close> is the piece being
  read. (Python raises on the empty separator; the converter only splits on \<^verbatim>\<open>" = "\<close>.)
\<close>

fun split_from :: "string \<Rightarrow> string \<Rightarrow> string \<Rightarrow> string list" where
  "split_from sep cur [] = [cur]"
| "split_from sep cur (c # cs) =
     (if starts_with sep (c # cs) then cur # split_from sep [] (drop (length sep - 1) cs)
      else split_from sep (cur @ [c]) cs)"

definition split :: "string \<Rightarrow> string \<Rightarrow> string list" where
  "split sep s = split_from sep [] s"

text \<open>\<^verbatim>\<open>str(i)\<close> of a non-negative integer, as the f-strings format it.\<close>

fun str_nat :: "nat \<Rightarrow> string" where
  "str_nat n =
     (if n < 10 then [char_of (48 + n)] else str_nat (n div 10) @ [char_of (48 + n mod 10)])"

subsection \<open>Arrays\<close>

text \<open>
  A numpy array: its element type name, its shape and its samples by index. Arrays are
  never written to after they are read, so the samples are a function of the index.
\<close>

datatype 'a ndarray = NDArray (dtype: string) (shape: "nat list") (cell: "nat list \<Rightarrow> 'a")

definition ndim :: "'a ndarray \<Rightarrow> nat" where
  "ndim a = length (shape a)"

text \<open>\<open>stride_len n f\<close> is \<^verbatim>\<open>len(range(0, n, f))\<close>: the indices 0, f, 2f, ... below n.\<close>

definition stride_len :: "nat \<Rightarrow> nat \<Rightarrow> nat" where
  "stride_len n f = (n + f - 1) div f"

text \<open>
  \<^verbatim>\<open>a[::f, ::f]\<close>: every f-th row and every f-th column; further axes are kept whole. An
  array with fewer than two axes has too many indices, a zero step is refused.
\<close>

definition subsample :: "nat \<Rightarrow> 'a ndarray \<Rightarrow> py_error + 'a ndarray" where
  "subsample f a =
     (if f = 0 then Inl (ValueError ''slice step cannot be zero'')
      else case shape a of
        s0 # s1 # rest \<Rightarrow>
          Inr (NDArray (dtype a) (stride_len s0 f # stride_len s1 f # rest)
                 (\<lambda>idx. case idx of
                     i # j # others \<Rightarrow> cell a (i * f # j * f # others)
                   | _ \<Rightarrow> cell a idx))
      | _ \<Rightarrow> Inl IndexError)"

text \<open>\<^verbatim>\<open>a[0]\<close>: the first plane along the first axis.\<close>

definition first_plane :: "'a ndarray \<Rightarrow> py_error + 'a ndarray" where
  "first_plane a =
     (case shape a of
        [] \<Rightarrow> Inl IndexError
      | s0 # rest \<Rightarrow>
          if s0 = 0 then Inl IndexError
          else Inr (NDArray (dtype a) rest (\<lambda>idx. cell a (0 # idx))))"

text \<open>
  \<^verbatim>\<open>skimage.transform.pyramid_reduce(image, downscale=2, preserve_range=True)\<close> followed by
  \<^verbatim>\<open>.astype(base.dtype)\<close>. The library smooths the image and resizes it to the shape
  \<^verbatim>\<open>ceil(d / 2)\<close> on every axis. The smoothed and cast sample values are a parameter
  \<open>resample\<close> of the model; the output shape is the library's.
\<close>

definition pyramid_reduce :: "('a ndarray \<Rightarrow> nat list \<Rightarrow> 'a) \<Rightarrow> 'a ndarray \<Rightarrow> 'a ndarray" where
  "pyramid_reduce resample img =
     NDArray (dtype img) (map (\<lambda>d. (d + 1) div 2) (shape img)) (resample img)"

section \<open>Metadata reader\<close>

text \<open>
  \<open>get_mag\<close> reads the descriptor line by line. The descriptor is \<open>None\<close> when the file
  does not exist, otherwise its lines as iteration over the file yields them. The builtin
  \<^verbatim>\<open>float\<close> is the parameter \<open>float_of\<close> (\<open>None\<close> where it raises ValueError). The
  result is the returned value together with the lines printed.
\<close>

fun scan_lines :: "(string \<Rightarrow> real option) \<Rightarrow> string list \<Rightarrow> real option \<times> string list" where
  "scan_lines float_of [] = (None, [''No line with 'PixelSpacing =' found.''])"
| "scan_lines float_of (linha # rest) =
     (if contains ''PixelSpacing'' linha then
        (let partes = split '' = '' (strip linha) in
         if length partes = 2 then
           (case float_of (strip (partes ! 1)) of
              Some v \<Rightarrow> (Some v, [])
            | None \<Rightarrow> (None, [''Could not convert value to float.'']))
         else scan_lines float_of rest)
      else scan_lines float_of rest)"

definition get_mag ::
  "(string \<Rightarrow> real option) \<Rightarrow> string \<Rightarrow> string list option \<Rightarrow> real option \<times> string list" where
  "get_mag float_of ficheiro_mdoc content =
     (case content of
        None \<Rightarrow> (None, [''File not found: '' @ ficheiro_mdoc])
      | Some linhas \<Rightarrow> scan_lines float_of linhas)"

section \<open>Reduction policy\<close>

text \<open>
  \<open>image_shape\<close> is indexed at 0 and 1. Division by a zero budget raises; for a negative
  budget the square root is not a number and \<^verbatim>\<open>int\<close> raises ValueError.
\<close>

fun calculate_reduction_factor :: "nat list \<Rightarrow> int \<Rightarrow> py_error + nat" where
  "calculate_reduction_factor (s0 # s1 # rest) target_pixels =
     (let current_pixels = int (s0 * s1) in
      if current_pixels \<le> target_pixels then Inr 1
      else if target_pixels = 0 then Inl ZeroDivisionError
      else if target_pixels < 0 then Inl (ValueError ''cannot convert float NaN to integer'')
      else Inr (nat \<lceil>sqrt (real_of_int current_pixels / real_of_int target_pixels)\<rceil>))"
| "calculate_reduction_factor _ target_pixels = Inl IndexError"

section \<open>Files\<close>

text \<open>
  A \<^verbatim>\<open>pathlib.Path\<close> of a file: its directory, and its name split into stem and suffix.
  \<open>key\<close> is the place of the file on disk.
\<close>

record pypath =
  p_parent :: string
  p_stem :: string
  p_suffix :: string

type_synonym path = "string \<times> string"

definition p_name :: "pypath \<Rightarrow> string" where
  "p_name p = p_stem p @ p_suffix p"

definition key :: "pypath \<Rightarrow> path" where
  "key p = (p_parent p, p_name p)"

text \<open>\<^verbatim>\<open>str(path)\<close>, as the messages print it (the separator is the platform's).\<close>

definition path_str :: "pypath \<Rightarrow> string" where
  "path_str p = p_parent p @ ''/'' @ p_name p"

definition with_suffix :: "pypath \<Rightarrow> string \<Rightarrow> pypath" where
  "with_suffix p s = p\<lparr>p_suffix := s\<rparr>"

subsection \<open>OME-TIFF containers\<close>

record ome_channel =
  channel_id :: string
  channel_name :: string
  samples_per_pixel :: nat

record ome_pixels =
  dimension_order :: string
  pixel_type :: string
  size_x :: nat
  size_y :: nat
  size_z :: nat
  size_c :: nat
  size_t :: nat
  physical_size_x :: real
  physical_size_y :: real
  channels :: "ome_channel list"
  pixels_id :: string

record ome_image =
  image_name :: string
  image_id :: string
  pixels :: ome_pixels

record ome =
  images :: "ome_image list"

text \<open>
  One \<^verbatim>\<open>tif.write\<close> call is one page: the array and the keyword arguments given
  (\<open>None\<close> for \<^verbatim>\<open>subifds\<close> and \<^verbatim>\<open>description\<close> where the call leaves them out).
\<close>

record 'a tiff_page =
  page_data :: "'a ndarray"
  subifds :: "nat option"
  photometric :: string
  tile :: "nat \<times> nat"
  compression :: string
  description :: "ome option"

record 'a tiff_file =
  bigtiff :: bool
  pages :: "'a tiff_page list"

subsection \<open>HDF5 containers\<close>

datatype h5_attr = AttrStr string | AttrNum real

datatype 'a h5_data = Raster "'a ndarray" | Axis "real list"

text \<open>
  A dataset with its attributes, the scale datasets attached to its axes (axis number and
  the name of the scale) and the labels of its axes.
\<close>

record 'a h5_dataset =
  h5_data :: "'a h5_data"
  h5_compression :: "string option"
  h5_chunks :: bool
  h5_attrs :: "(string \<times> h5_attr) list"
  h5_scales :: "(nat \<times> string) list"
  h5_labels :: "(nat \<times> string) list"

record 'a h5_file =
  h5_datasets :: "(string \<times> 'a h5_dataset) list"
  h5_file_attrs :: "(string \<times> h5_attr) list"

subsection \<open>BigDataViewer descriptors\<close>

text \<open>
  The XML text as a tree. Text content is a list of tokens separated by blanks; a token
  is literal text, a formatted integer or a formatted float.
\<close>

datatype xml_token = Lit string | Num nat | Flt real

datatype xml =
    Element string "(string \<times> string) list" "xml list"
  | Text "xml_token list"

subsection \<open>The disk\<close>

datatype 'a disk_file =
    Mdoc "string list"
  | Mrc "'a ndarray"
  | Tiff "'a tiff_file"
  | H5 "'a h5_file"
  | Xml xml
  | Other

type_synonym 'a fs = "path \<Rightarrow> 'a disk_file option"

text \<open>\<^verbatim>\<open>mrcfile.open(path, permissive=True)\<close> and \<^verbatim>\<open>mrc.data\<close>.\<close>

definition read_mrc :: "'a fs \<Rightarrow> path \<Rightarrow> py_error + 'a ndarray" where
  "read_mrc fs p =
     (case fs p of
        None \<Rightarrow> Inl FileNotFoundError
      | Some (Mrc a) \<Rightarrow> Inr a
      | Some _ \<Rightarrow> Inl (ValueError ''not an MRC file''))"

section \<open>OME-TIFF emitter\<close>

text \<open>
  The loop of \<^verbatim>\<open>create_ome_bigtiff_pyramid\<close> that builds the pyramid. With
  \<^verbatim>\<open>min_size = 0\<close> its condition is always true and the loop does not end: the result
  is \<open>None\<close> then.
\<close>

partial_function (option) pyramid_loop ::
  "('a ndarray \<Rightarrow> nat list \<Rightarrow> 'a) \<Rightarrow> nat \<Rightarrow> 'a ndarray \<Rightarrow> 'a ndarray list \<Rightarrow> 'a ndarray list option" where
  "pyramid_loop resample min_size current pyramid =
     (if min_list (shape current) \<ge> min_size * 2 then
        (let current' = pyramid_reduce resample current
         in pyramid_loop resample min_size current' (pyramid @ [current']))
      else Some pyramid)"

definition build_pyramid ::
  "('a ndarray \<Rightarrow> nat list \<Rightarrow> 'a) \<Rightarrow> nat \<Rightarrow> 'a ndarray \<Rightarrow> 'a ndarray list option" where
  "build_pyramid resample min_size base = pyramid_loop resample min_size base [base]"

text \<open>The \<^verbatim>\<open>OME(images=[Image(...)])\<close> expression.\<close>

definition ome_metadata :: "string \<Rightarrow> 'a ndarray \<Rightarrow> real \<Rightarrow> ome" where
  "ome_metadata name base pixel_size_um =
     \<lparr>images =
        [\<lparr>image_name = name,
          image_id = ''Image:0'',
          pixels =
            \<lparr>dimension_order = ''XYCZT'',
             pixel_type = dtype base,
             size_x = shape base ! 1,
             size_y = shape base ! 0,
             size_z = 1,
             size_c = 1,
             size_t = 1,
             physical_size_x = pixel_size_um,
             physical_size_y = pixel_size_um,
             channels =
               [\<lparr>channel_id = ''Channel:0:0'', channel_name = ''channel_0'',
                 samples_per_pixel = 1\<rparr>],
             pixels_id = ''Pixels:0''\<rparr>\<rparr>]\<rparr>"

text \<open>The \<^verbatim>\<open>with tifffile.TiffWriter(...)\<close> block: the first page, then one page per level.\<close>

definition write_tiff :: "'a ndarray list \<Rightarrow> nat \<Rightarrow> string \<Rightarrow> ome \<Rightarrow> py_error + 'a tiff_file" where
  "write_tiff pyramid tile_size compr ome_xml =
     (case pyramid of
        [] \<Rightarrow> Inl IndexError
      | level0 # levels \<Rightarrow>
          Inr \<lparr>bigtiff = True,
               pages =
                 \<lparr>page_data = level0, subifds = Some (length pyramid - 1),
                  photometric = ''minisblack'', tile = (tile_size, tile_size),
                  compression = compr, description = Some ome_xml\<rparr>
                 # map (\<lambda>level.
                     \<lparr>page_data = level, subifds = None, photometric = ''minisblack'',
                      tile = (tile_size, tile_size), compression = compr,
                      description = None\<rparr>) levels\<rparr>)"

definition create_ome_bigtiff_pyramid ::
  "('a ndarray \<Rightarrow> nat list \<Rightarrow> 'a) \<Rightarrow> 'a fs \<Rightarrow> path \<Rightarrow> path \<Rightarrow> real \<Rightarrow> nat \<Rightarrow> nat \<Rightarrow> string \<Rightarrow> nat
     \<Rightarrow> (py_error + 'a fs) option" where
  "create_ome_bigtiff_pyramid resample fs mrc_base_path output_path pixel_spacing_angstrom
       min_size tile_size compr reduction_factor =
     (case read_mrc fs mrc_base_path of
        Inl e \<Rightarrow> Some (Inl e)
      | Inr base0 \<Rightarrow>
          if ndim base0 \<noteq> 2 then Some (Inl (ValueError ''Image must be 2D.''))
          else
            (case (if reduction_factor > 1 then subsample reduction_factor base0
                   else Inr base0) of
               Inl e \<Rightarrow> Some (Inl e)
             | Inr base \<Rightarrow>
                 (let adjusted_pixel_spacing =
                        (if reduction_factor > 1
                         then pixel_spacing_angstrom * real reduction_factor
                         else pixel_spacing_angstrom)
                  in case build_pyramid resample min_size base of
                       None \<Rightarrow> None
                     | Some pyramid \<Rightarrow>
                         (let pixel_size_um = adjusted_pixel_spacing * 0.0001;
                              ome_xml = ome_metadata (snd mrc_base_path) base pixel_size_um
                          in case write_tiff pyramid tile_size compr ome_xml of
                               Inl e \<Rightarrow> Some (Inl e)
                             | Inr tif \<Rightarrow> Some (Inr (fs(output_path \<mapsto> Tiff tif)))))))"

section \<open>HDF5 and BigDataViewer emitter\<close>

text \<open>\<^verbatim>\<open>f.create_dataset(name, data=..., ...)\<close>: a new dataset, nothing attached yet.\<close>

definition create_dataset ::
  "string \<Rightarrow> 'a h5_data \<Rightarrow> string option \<Rightarrow> bool \<Rightarrow> 'a h5_file \<Rightarrow> 'a h5_file" where
  "create_dataset name content compr chunked f =
     f\<lparr>h5_datasets := h5_datasets f @
         [(name, \<lparr>h5_data = content, h5_compression = compr, h5_chunks = chunked,
                  h5_attrs = [], h5_scales = [], h5_labels = []\<rparr>)]\<rparr>"

text \<open>A dataset handle is the dataset's name; \<open>modify_dataset\<close> changes the dataset in place.\<close>

definition modify_dataset ::
  "string \<Rightarrow> ('a h5_dataset \<Rightarrow> 'a h5_dataset) \<Rightarrow> 'a h5_file \<Rightarrow> 'a h5_file" where
  "modify_dataset name g f =
     f\<lparr>h5_datasets := map (\<lambda>(n, d). if n = name then (n, g d) else (n, d)) (h5_datasets f)\<rparr>"

definition dset_shape :: "'a h5_file \<Rightarrow> string \<Rightarrow> nat list" where
  "dset_shape f name =
     (case map_of (h5_datasets f) name of
        Some d \<Rightarrow> (case h5_data d of Raster a \<Rightarrow> shape a | Axis xs \<Rightarrow> [length xs])
      | None \<Rightarrow> [])"

text \<open>\<^verbatim>\<open>np.arange(n) * step\<close>.\<close>

definition arange_times :: "nat \<Rightarrow> real \<Rightarrow> real list" where
  "arange_times n step = map (\<lambda>j. real j * step) [0..<n]"

definition enumerate :: "'b list \<Rightarrow> (nat \<times> 'b) list" where
  "enumerate xs = zip [0..<length xs] xs"

text \<open>
  The body of the loop over \<^verbatim>\<open>enumerate([dset0, dset1, dset2])\<close>. The datasets it meets
  hold arrays of at least two axes.
\<close>

definition attach_scales :: "real \<Rightarrow> nat \<times> string \<Rightarrow> 'a h5_file \<Rightarrow> 'a h5_file" where
  "attach_scales pixel_size_nm idset f =
     (let i = fst idset; dset = snd idset;
          scale_factor = (2::nat) ^ i;
          current_pixel_size = pixel_size_nm * real scale_factor;
          x_scale = ''x_scale_res'' @ str_nat i;
          f1 = create_dataset x_scale
                 (Axis (arange_times (dset_shape f dset ! 1) current_pixel_size)) None False f;
          f2 = modify_dataset x_scale
                 (\<lambda>d. d\<lparr>h5_attrs := h5_attrs d @ [(''units'', AttrStr ''nm''), (''name'', AttrStr ''x'')]\<rparr>) f1;
          y_scale = ''y_scale_res'' @ str_nat i;
          f3 = create_dataset y_scale
                 (Axis (arange_times (dset_shape f2 dset ! 0) current_pixel_size)) None False f2;
          f4 = modify_dataset y_scale
                 (\<lambda>d. d\<lparr>h5_attrs := h5_attrs d @ [(''units'', AttrStr ''nm''), (''name'', AttrStr ''y'')]\<rparr>) f3;
          f5 = modify_dataset dset
                 (\<lambda>d. d\<lparr>h5_scales := h5_scales d @ [(0, y_scale), (1, x_scale)]\<rparr>) f4
      in modify_dataset dset
           (\<lambda>d. d\<lparr>h5_labels := h5_labels d @ [(0, ''y''), (1, ''x'')]\<rparr>) f5)"

text \<open>
  \<open>create_bdv_xml\<close>: the descriptor text, and the write of it. \<open>image_shape\<close> has at least
  two entries where the emitter calls it.
\<close>

definition bdv_xml_content :: "string \<Rightarrow> nat list \<Rightarrow> real \<Rightarrow> xml" where
  "bdv_xml_content h5_filename image_shape pixel_size_um =
     (let pixel_size_x = pixel_size_um;
          pixel_size_y = pixel_size_um;
          pixel_size_z = pixel_size_um;
          affine_matrix =
            [pixel_size_x, 0, 0, 0,
             0, pixel_size_y, 0, 0,
             0, 0, pixel_size_z, 0]
      in Element ''SpimData'' [(''version'', ''0.2'')]
           [Element ''BasePath'' [(''type'', ''relative'')] [Text [Lit ''.'']],
            Element ''SequenceDescription'' []
              [Element ''ImageLoader'' [(''format'', ''bdv.hdf5'')]
                 [Element ''hdf5'' [(''type'', ''relative'')] [Text [Lit h5_filename]]],
               Element ''ViewSetups'' []
                 [Element ''ViewSetup'' []
                    [Element ''id'' [] [Text [Lit ''0'']],
                     Element ''name'' [] [Text [Lit ''channel'', Lit ''1'']],
                     Element ''size'' []
                       [Text [Num (image_shape ! 1), Num (image_shape ! 0), Lit ''1'']],
                     Element ''voxelSize'' []
                       [Element ''unit'' [] [Text [Lit ([CHR 0xCE, CHR 0xBC] @ ''m'')]],
                        Element ''size'' []
                          [Text [Flt pixel_size_x, Flt pixel_size_y, Flt pixel_size_z]]],
                     Element ''attributes'' [] [Element ''channel'' [] [Text [Lit ''1'']]]],
                  Element ''Attributes'' [(''name'', ''channel'')]
                    [Element ''Channel'' []
                       [Element ''id'' [] [Text [Lit ''1'']],
                        Element ''name'' [] [Text [Lit ''1'']]]]],
               Element ''Timepoints'' [(''type'', ''range'')]
                 [Element ''first'' [] [Text [Lit ''0'']],
                  Element ''last'' [] [Text [Lit ''0'']]]],
            Element ''ViewRegistrations'' []
              [Element ''ViewRegistration'' [(''timepoint'', ''0''), (''setup'', ''0'')]
                 [Element ''ViewTransform'' [(''type'', ''affine'')]
                    [Element ''affine'' [] [Text (map Flt affine_matrix)]]]]])"

definition create_bdv_xml :: "'a fs \<Rightarrow> path \<Rightarrow> string \<Rightarrow> nat list \<Rightarrow> real \<Rightarrow> 'a fs" where
  "create_bdv_xml fs xml_path h5_filename image_shape pixel_size_um =
     fs(xml_path \<mapsto> Xml (bdv_xml_content h5_filename image_shape pixel_size_um))"

text \<open>The \<^verbatim>\<open>with h5py.File(output_path, 'w')\<close> block of \<open>create_hdf5_pyramid\<close>.\<close>

definition hdf5_content ::
  "'a ndarray \<Rightarrow> 'a ndarray \<Rightarrow> 'a ndarray \<Rightarrow> real \<Rightarrow> real \<Rightarrow> string \<Rightarrow> 'a h5_file" where
  "hdf5_content base half quarter pixel_size_nm pixel_size_um compr =
     (let f0 = \<lparr>h5_datasets = [], h5_file_attrs = []\<rparr>;
          f1 = create_dataset ''res0'' (Raster base) (Some compr) True f0;
          f2 = create_dataset ''res1'' (Raster half) (Some compr) True f1;
          f3 = create_dataset ''res2'' (Raster quarter) (Some compr) True f2;
          f4 = fold (attach_scales pixel_size_nm) (enumerate [''res0'', ''res1'', ''res2'']) f3
      in f4\<lparr>h5_file_attrs := h5_file_attrs f4 @
              [(''source'', AttrStr ''SerialEM .mdoc''),
               (''pixel_size_nm'', AttrNum pixel_size_nm),
               (''pixel_size_um'', AttrNum pixel_size_um),
               (''unit'', AttrStr ''nm'')]\<rparr>)"

definition create_hdf5_pyramid ::
  "'a fs \<Rightarrow> path \<Rightarrow> pypath \<Rightarrow> real \<Rightarrow> string \<Rightarrow> py_error + 'a fs" where
  "create_hdf5_pyramid fs mrc_base_path output_path mag compr =
     (case read_mrc fs mrc_base_path of
        Inl e \<Rightarrow> Inl e
      | Inr base0 \<Rightarrow>
          (case (if ndim base0 = 3 then first_plane base0 else Inr base0) of
             Inl e \<Rightarrow> Inl e
           | Inr base \<Rightarrow>
               (case subsample 2 base of
                  Inl e \<Rightarrow> Inl e
                | Inr half \<Rightarrow>
                    (case subsample 4 base of
                       Inl e \<Rightarrow> Inl e
                     | Inr quarter \<Rightarrow>
                         (let pixel_size_nm = mag / 10;
                              pixel_size_um = pixel_size_nm / 1000;
                              fs1 = fs(key output_path \<mapsto>
                                      H5 (hdf5_content base half quarter pixel_size_nm
                                            pixel_size_um compr));
                              xml_path = with_suffix output_path ''.xml''
                          in Inr (create_bdv_xml fs1 (key xml_path) (p_name output_path)
                                    (shape base) pixel_size_um))))))"

section \<open>Batch orchestrator\<close>

text \<open>
  The external stitcher. A command is run through the Cygwin shell; the parameter \<open>cygwin\<close>
  of the model gives the effect of a command on the disk and whether it returned status
  0. The translation of Windows paths for the shell is not modelled.
\<close>

datatype command =
    Extractpieces string string string
  | Blendmont string string string string string

definition run_cygwin_command ::
  "(command \<Rightarrow> 'a fs \<Rightarrow> bool \<times> 'a fs) \<Rightarrow> command \<Rightarrow> 'a fs \<Rightarrow> (py_error + unit) \<times> 'a fs" where
  "run_cygwin_command cygwin cmd fs =
     (case cygwin cmd fs of
        (True, fs') \<Rightarrow> (Inr (), fs')
      | (False, fs') \<Rightarrow> (Inl RuntimeError, fs'))"

text \<open>\<^verbatim>\<open>for file in pasta.glob(prefix + '*'): os.remove(file)\<close>\<close>

definition remove_glob :: "string \<Rightarrow> string \<Rightarrow> 'a fs \<Rightarrow> 'a fs" where
  "remove_glob pasta prefix fs =
     (\<lambda>p. if fst p = pasta \<and> starts_with prefix (snd p) then None else fs p)"

definition cleanup :: "string \<Rightarrow> path \<Rightarrow> 'a fs \<Rightarrow> 'a fs" where
  "cleanup pasta cblf fs =
     (let fs1 = remove_glob pasta ''MONTAGE_EDGES'' fs;
          fs2 = remove_glob pasta ''montage_plf'' fs1
      in if fs2 cblf \<noteq> None then fs2(cblf := None) else fs2)"

text \<open>The branch of \<open>process_mrc_file\<close> taken for an image of more than 2G pixels.\<close>

definition handle_large_image ::
  "('a ndarray \<Rightarrow> nat list \<Rightarrow> 'a) \<Rightarrow> bool \<Rightarrow> 'a fs \<Rightarrow> path \<Rightarrow> pypath \<Rightarrow> path \<Rightarrow> real \<Rightarrow> nat list
     \<Rightarrow> (py_error + 'a fs) option" where
  "handle_large_image resample create_h5 fs cblf output_h5 output_tiff_reduced mag image_shape =
     (if create_h5 then Some (create_hdf5_pyramid fs cblf output_h5 mag ''gzip'')
      else
        (case calculate_reduction_factor image_shape 1000000000 of
           Inl e \<Rightarrow> Some (Inl e)
         | Inr reduction_factor \<Rightarrow>
             create_ome_bigtiff_pyramid resample fs cblf output_tiff_reduced mag 512 256
               ''deflate'' reduction_factor))"

text \<open>
  \<open>process_mrc_file\<close>: the returned flag and the disk afterwards. Every exception is caught
  by the function's \<^verbatim>\<open>except Exception\<close>, which returns \<open>False\<close> and leaves the disk
  as it is at that point. \<open>create_h5\<close> is the state of the check box. A descriptor
  that is no text file makes the read raise. The lines printed are left out, and a
  removal in the clean-up does not fail. The result is \<open>None\<close> when an emitter does
  not return.
\<close>

definition process_mrc_file ::
  "(command \<Rightarrow> 'a fs \<Rightarrow> bool \<times> 'a fs) \<Rightarrow> ('a ndarray \<Rightarrow> nat list \<Rightarrow> 'a) \<Rightarrow> (string \<Rightarrow> real option)
     \<Rightarrow> bool \<Rightarrow> pypath \<Rightarrow> 'a fs \<Rightarrow> (bool \<times> 'a fs) option" where
  "process_mrc_file cygwin resample float_of create_h5 mrc_file fs =
     (let mdoc_file = with_suffix mrc_file (p_suffix mrc_file @ ''.mdoc'') in
      case fs (key mdoc_file) of
        None \<Rightarrow> Some (False, fs)
      | Some (Mdoc linhas) \<Rightarrow>
          (case fst (get_mag float_of (path_str mdoc_file) (Some linhas)) of
             None \<Rightarrow> Some (False, fs)
           | Some mag \<Rightarrow>
               (let pasta = p_parent mrc_file;
                    name = p_name mrc_file;
                    stem = p_stem mrc_file;
                    blf = stem @ ''_blended.mrc'';
                    cblf = (pasta, blf)
                in case run_cygwin_command cygwin
                          (Extractpieces pasta name ''montage_plf'') fs of
                     (Inl e, fs1) \<Rightarrow> Some (False, fs1)
                   | (Inr u, fs1) \<Rightarrow>
                 (case run_cygwin_command cygwin
                          (Blendmont pasta name ''montage_plf'' blf ''MONTAGE_EDGES'') fs1 of
                     (Inl e, fs2) \<Rightarrow> Some (False, fs2)
                   | (Inr u, fs2) \<Rightarrow>
                 if fs2 cblf = None then Some (False, fs2)
                 else
                 (case read_mrc fs2 cblf of
                    Inl e \<Rightarrow> Some (False, fs2)
                  | Inr image_data0 \<Rightarrow>
                 (case (if ndim image_data0 = 3 then first_plane image_data0
                        else Inr image_data0) of
                    Inl e \<Rightarrow> Some (False, fs2)
                  | Inr image_data \<Rightarrow>
                 (case shape image_data of
                    s0 # s1 # others \<Rightarrow>
                      (let total_pixels = s0 * s1;
                           is_large_image = (total_pixels > 2000000000);
                           output_tiff = key (with_suffix mrc_file ''.ome.tif'');
                           output_h5 = with_suffix mrc_file ''.h5'';
                           output_tiff_reduced = (pasta, stem @ ''_reduced.ome.tif'')
                       in case create_ome_bigtiff_pyramid resample fs2 cblf output_tiff mag
                                 512 256 ''deflate'' 1 of
                            None \<Rightarrow> None
                          | Some (Inl e) \<Rightarrow> Some (False, fs2)
                          | Some (Inr fs3) \<Rightarrow>
                              (if is_large_image then
                                 (case handle_large_image resample create_h5 fs3 cblf output_h5
                                         output_tiff_reduced mag (shape image_data) of
                                    None \<Rightarrow> None
                                  | Some (Inl e) \<Rightarrow> Some (False, fs3)
                                  | Some (Inr fs4) \<Rightarrow> Some (True, cleanup pasta cblf fs4))
                               else Some (True, cleanup pasta cblf fs3)))
                  | _ \<Rightarrow> Some (False, fs2)))))))
      | Some other \<Rightarrow> Some (False, fs))"

text \<open>
  The loop of \<open>run_batch\<close> over the files found: the number of files processed
  successfully and the disk afterwards.
\<close>

fun run_batch ::
  "(command \<Rightarrow> 'a fs \<Rightarrow> bool \<times> 'a fs) \<Rightarrow> ('a ndarray \<Rightarrow> nat list \<Rightarrow> 'a) \<Rightarrow> (string \<Rightarrow> real option)
     \<Rightarrow> bool \<Rightarrow> pypath list \<Rightarrow> nat \<Rightarrow> 'a fs \<Rightarrow> (nat \<times> 'a fs) option" where
  "run_batch cygwin resample float_of create_h5 [] successful fs = Some (successful, fs)"
| "run_batch cygwin resample float_of create_h5 (mrc_file # rest) successful fs =
     (case process_mrc_file cygwin resample float_of create_h5 mrc_file fs of
        None \<Rightarrow> None
      | Some (ok, fs') \<Rightarrow>
          run_batch cygwin resample float_of create_h5 rest
            (if ok then successful + 1 else successful) fs')"

section \<open>Auxiliary notions for the statements\<close>

text \<open>
  A line that \<open>get_mag\<close> parses: it contains the key and, stripped, splits at
  \<^verbatim>\<open>" = "\<close> into exactly two parts. \<open>value_text\<close> is the text handed to \<^verbatim>\<open>float\<close>.
\<close>

definition key_line :: "string \<Rightarrow> bool" where
  "key_line linha = (contains ''PixelSpacing'' linha \<and> length (split '' = '' (strip linha)) = 2)"

definition value_text :: "string \<Rightarrow> string" where
  "value_text linha = strip (split '' = '' (strip linha) ! 1)"

text \<open>
  The plain decimal literals among the strings \<^verbatim>\<open>float\<close> accepts: digits, then
  optionally a point and digits. It stands for \<^verbatim>\<open>float\<close> in the examples.
\<close>

definition is_digit :: "char \<Rightarrow> bool" where
  "is_digit c = (48 \<le> (of_char c :: nat) \<and> (of_char c :: nat) \<le> 57)"

fun digits_value :: "nat \<Rightarrow> string \<Rightarrow> nat" where
  "digits_value acc [] = acc"
| "digits_value acc (c # cs) = digits_value (10 * acc + (of_char c - 48)) cs"

definition decimal_float :: "string \<Rightarrow> real option" where
  "decimal_float s =
     (let whole = takeWhile is_digit s; rest = dropWhile is_digit s in
      case rest of
        [] \<Rightarrow> if whole = [] then None else Some (real (digits_value 0 whole))
      | c # fraction \<Rightarrow>
          if c = CHR ''.'' \<and> list_all is_digit fraction \<and> (whole \<noteq> [] \<or> fraction \<noteq> [])
          then Some (real (digits_value 0 whole) + real (digits_value 0 fraction) / 10 ^ length fraction)
          else None)"

text \<open>An array of zeros and a resampling that yields zeros, for the examples.\<close>

definition zeros :: "nat list \<Rightarrow> nat ndarray" where
  "zeros dims = NDArray ''uint8'' dims (\<lambda>idx. 0)"

definition resample_zero :: "nat ndarray \<Rightarrow> nat list \<Rightarrow> nat" where
  "resample_zero img idx = 0"

text \<open>
  Reading a descriptor: the name of an element, its content, and the element reached by
  a path of element names (at each step the first child with the name).
\<close>

fun tag :: "xml \<Rightarrow> string" where
  "tag (Element name attrs body) = name"
| "tag (Text tokens) = []"

fun children :: "xml \<Rightarrow> xml list" where
  "children (Element name attrs body) = body"
| "children (Text tokens) = []"

fun descend :: "string list \<Rightarrow> xml \<Rightarrow> xml option" where
  "descend [] x = Some x"
| "descend (name # names) x =
     (case find (\<lambda>c. tag c = name) (children x) of
        None \<Rightarrow> None
      | Some c \<Rightarrow> descend names c)"


text \<open>
  For the examples: a stitcher whose \<^verbatim>\<open>extractpieces\<close> writes the piece list and whose
  \<^verbatim>\<open>blendmont\<close> writes a given blended raster and an edge file; a folder with one
  montage and its descriptor.
\<close>

definition example_stitcher :: "nat ndarray \<Rightarrow> command \<Rightarrow> nat fs \<Rightarrow> bool \<times> nat fs" where
  "example_stitcher img cmd fs =
     (case cmd of
        Extractpieces dir name out \<Rightarrow> (True, fs((dir, out) \<mapsto> Other))
      | Blendmont dir imi pli imo roo \<Rightarrow>
          (True, fs((dir, imo) \<mapsto> Mrc img, (dir, roo @ ''.xef'') \<mapsto> Other)))"

definition example_disk :: "nat fs" where
  "example_disk =
     Map.empty((''d'', ''a.mrc'') \<mapsto> Mrc (zeros [3, 8, 8]),
               (''d'', ''a.mrc.mdoc'') \<mapsto> Mdoc [''PixelSpacing = 1.5\<newline>''])"

definition example_mrc :: pypath where
  "example_mrc = \<lparr>p_parent = ''d'', p_stem = ''a'', p_suffix = ''.mrc''\<rparr>"

section \<open>Properties of the reduction policy\<close>








section \<open>Properties of the metadata reader\<close>

lemma scan_lines_find:
  "scan_lines float_of ls =
     (case find key_line ls of
        None \<Rightarrow> (None, [''No line with 'PixelSpacing =' found.''])
      | Some l \<Rightarrow>
          (case float_of (value_text l) of
             Some v \<Rightarrow> (Some v, [])
           | None \<Rightarrow> (None, [''Could not convert value to float.''])))"
  by (induction ls) (simp_all add: key_line_def value_text_def Let_def)

lemma scan_lines_skip:
  "\<forall>x\<in>set pre. \<not> key_line x \<Longrightarrow> scan_lines float_of (pre @ ls) = scan_lines float_of ls"
  by (induction pre) (simp_all add: key_line_def Let_def)

text \<open>
  Claim C6, as the code has it. \<open>get_mag\<close> does not raise on a missing descriptor: it
  returns \<open>None\<close> and prints that the file was not found. On a descriptor that exists it
  returns the parsed value of the first line it parses, printing nothing, or it returns
  \<open>None\<close> and prints that no such line was found or that the value could not be
  converted. The lines printed for a missing descriptor differ from the lines printed
  for any descriptor that exists; the returned value is \<open>None\<close> in each failure.
\<close>

theorem get_mag_outcomes:
  "get_mag float_of ficheiro None = (None, [''File not found: '' @ ficheiro]) \<and>
   get_mag float_of ficheiro (Some linhas) =
     (case find key_line linhas of
        None \<Rightarrow> (None, [''No line with 'PixelSpacing =' found.''])
      | Some l \<Rightarrow>
          (case float_of (value_text l) of
             Some v \<Rightarrow> (Some v, [])
           | None \<Rightarrow> (None, [''Could not convert value to float.'']))) \<and>
   snd (get_mag float_of ficheiro None) \<noteq> snd (get_mag float_of ficheiro (Some linhas))"
  by (simp add: get_mag_def scan_lines_find split: option.splits)

text \<open>
  The returned value does not tell the outcomes apart: it is \<open>None\<close> for a missing
  descriptor, for a value that is no number and for a descriptor without the key.
\<close>

theorem get_mag_result_counterexample:
  "fst (get_mag decimal_float ''a.mrc.mdoc'' None) = None \<and>
   fst (get_mag decimal_float ''a.mrc.mdoc'' (Some [''PixelSpacing = abc\<newline>''])) = None \<and>
   fst (get_mag decimal_float ''a.mrc.mdoc'' (Some [''Voltage = 300\<newline>''])) = None"
  by (simp add: get_mag_def split_def strip_def is_space_def decimal_float_def is_digit_def)

text \<open>
  Claim C7, as the code has it. The result is that of the first line that contains the
  key and splits at \<^verbatim>\<open>" = "\<close> into two parts: the lines after it are ignored, also
  when its value is no number, and the lines before it play no part.
\<close>

theorem get_mag_first_key_line:
  assumes "\<forall>x\<in>set pre. \<not> key_line x" and "key_line l"
  shows "get_mag float_of ficheiro (Some (pre @ l # post)) = get_mag float_of ficheiro (Some [l])"
  using assms(2) by (simp add: get_mag_def scan_lines_skip[OF assms(1)] key_line_def Let_def split: option.splits)

text \<open>
  A descriptor whose first line has the key without the separator, whose second line has
  a value that is no number, and whose third line would parse.
\<close>

theorem get_mag_first_key_line_witness:
  "\<not> key_line ''PixelSpacing=7\<newline>'' \<and> key_line ''PixelSpacing = abc\<newline>'' \<and>
   get_mag decimal_float ''a.mrc.mdoc''
     (Some ([''PixelSpacing=7\<newline>''] @ ''PixelSpacing = abc\<newline>'' # [''PixelSpacing = 1.5\<newline>'']))
   = (None, [''Could not convert value to float.''])"
proof -
  have a: "\<forall>x\<in>set [''PixelSpacing=7\<newline>'']. \<not> key_line x"
    by (simp add: key_line_def split_def strip_def is_space_def)
  have b: "key_line ''PixelSpacing = abc\<newline>''"
    by (simp add: key_line_def split_def strip_def is_space_def)
  have c: "get_mag decimal_float ''a.mrc.mdoc'' (Some [''PixelSpacing = abc\<newline>''])
      = (None, [''Could not convert value to float.''])"
    by (simp add: get_mag_def split_def strip_def is_space_def decimal_float_def is_digit_def)
  show ?thesis using a b get_mag_first_key_line[OF a b, of decimal_float "''a.mrc.mdoc''" "[''PixelSpacing = 1.5\<newline>'']"] c
    by simp
qed

text \<open>
  A line that contains the key but does not split into two parts is passed over, and the
  result comes from a later line: two descriptors with the same first matching line give
  different results.
\<close>

theorem get_mag_first_match_counterexample:
  "contains ''PixelSpacing'' ''PixelSpacing=none\<newline>'' \<and>
   get_mag decimal_float ''a.mrc.mdoc'' (Some [''PixelSpacing=none\<newline>'', ''PixelSpacing = 2.5\<newline>''])
     = (Some 2.5, []) \<and>
   get_mag decimal_float ''a.mrc.mdoc'' (Some [''PixelSpacing=none\<newline>'', ''PixelSpacing = 3.5\<newline>''])
     = (Some 3.5, [])"
  by (simp add: get_mag_def split_def strip_def is_space_def decimal_float_def is_digit_def)

section \<open>Properties of the pyramid builder\<close>

text \<open>
  The loop run for \<open>n\<close> rounds: when the condition holds on the first \<open>n\<close> levels and
  fails on the next, the loop returns those levels.
\<close>

lemma pyramid_loop_levels:
  assumes "\<forall>k<n. m * 2 \<le> min_list (shape ((pyramid_reduce rs ^^ k) cur))"
    and "\<not> m * 2 \<le> min_list (shape ((pyramid_reduce rs ^^ n) cur))"
  shows "pyramid_loop rs m cur pyr =
           Some (pyr @ map (\<lambda>k. (pyramid_reduce rs ^^ Suc k) cur) [0..<n])"
  using assms
proof (induction n arbitrary: cur pyr)
  case 0
  then show ?case by (subst pyramid_loop.simps) simp
next
  case (Suc n)
  let ?R = "pyramid_reduce rs"
  have c0: "m * 2 \<le> min_list (shape cur)" using Suc.prems(1) by fastforce
  have sw: "\<And>k. (?R ^^ k) (?R cur) = (?R ^^ Suc k) cur" by (simp add: funpow_swap1)
  have a: "\<forall>k<n. m * 2 \<le> min_list (shape ((?R ^^ k) (?R cur)))"
  proof (intro allI impI)
    fix k assume "k < n"
    then have "Suc k < Suc n" by simp
    with Suc.prems(1) have "m * 2 \<le> min_list (shape ((?R ^^ Suc k) cur))" by blast
    then show "m * 2 \<le> min_list (shape ((?R ^^ k) (?R cur)))" by (simp only: sw)
  qed
  have b: "\<not> m * 2 \<le> min_list (shape ((?R ^^ n) (?R cur)))"
    using Suc.prems(2) by (simp add: funpow_swap1)
  have "pyramid_loop rs m cur pyr = pyramid_loop rs m (?R cur) (pyr @ [?R cur])"
    using c0 by (subst pyramid_loop.simps) (simp add: Let_def)
  also have "\<dots> = Some ((pyr @ [?R cur]) @ map (\<lambda>k. (?R ^^ Suc k) (?R cur)) [0..<n])"
    by (rule Suc.IH[OF a b])
  also have "(pyr @ [?R cur]) @ map (\<lambda>k. (?R ^^ Suc k) (?R cur)) [0..<n]
      = pyr @ map (\<lambda>k. (?R ^^ Suc k) cur) [0..<Suc n]"
    by (simp only: sw map_upt_Suc) simp
  finally show ?case .
qed

text \<open>With the threshold 0 the loop returns nothing.\<close>

lemma pyramid_loop_diverges: "pyramid_loop rs 0 cur pyr = None"
proof (cases "pyramid_loop rs 0 cur pyr")
  case None then show ?thesis .
next
  case (Some y)
  have "pyramid_loop rs m cur pyr = Some y \<Longrightarrow> m \<noteq> 0" for m
    by (rule pyramid_loop.raw_induct[where P = "\<lambda>rs m cur pyr y. m \<noteq> 0"])
       (auto simp: Let_def split: if_splits)
  with Some show ?thesis by blast
qed

text \<open>The shapes of the levels, and the round at which the loop stops.\<close>

lemma shape_reduce_pow:
  "shape ((pyramid_reduce rs ^^ k) a) = map ((\<lambda>d. (d + 1) div 2) ^^ k) (shape a)"
  by (induction k) (simp_all add: pyramid_reduce_def)

lemma half_up_mono: "a \<le> b \<Longrightarrow> ((\<lambda>d::nat. (d + 1) div 2) ^^ k) a \<le> ((\<lambda>d. (d + 1) div 2) ^^ k) b"
  by (induction k) (simp_all add: div_le_mono)

lemma min_shape_pow:
  assumes "shape a = [h, w]"
  shows "min_list (shape ((pyramid_reduce rs ^^ k) a)) = ((\<lambda>d. (d + 1) div 2) ^^ k) (min h w)"
proof -
  let ?g = "(\<lambda>d::nat. (d + 1) div 2) ^^ k"
  have "min (?g h) (?g w) = ?g (min h w)"
    using half_up_mono[of h w k] half_up_mono[of w h k] by (cases "h \<le> w") (simp_all add: min_def)
  then show ?thesis by (simp add: shape_reduce_pow assms)
qed

lemma half_up_reaches:
  assumes "1 \<le> m"
  shows "\<exists>n. ((\<lambda>d::nat. (d + 1) div 2) ^^ n) x < 2 * m"
proof (induction x rule: less_induct)
  case (less x)
  show ?case
  proof (cases "x < 2 * m")
    case True
    then have "((\<lambda>d::nat. (d + 1) div 2) ^^ 0) x < 2 * m" by simp
    then show ?thesis by blast
  next
    case False
    then have "(x + 1) div 2 < x" using assms by linarith
    from less.IH[OF this] obtain n where "((\<lambda>d::nat. (d + 1) div 2) ^^ n) ((x + 1) div 2) < 2 * m" by blast
    then have "((\<lambda>d::nat. (d + 1) div 2) ^^ Suc n) x < 2 * m"
      by (simp only: funpow_Suc_right o_apply)
    then show ?thesis by blast
  qed
qed


lemma build_pyramid_explicit:
  assumes m: "1 \<le> m" and sh: "shape base = [h, w]"
  defines "N \<equiv> (LEAST n. ((\<lambda>d::nat. (d + 1) div 2) ^^ n) (min h w) < 2 * m)"
  shows "build_pyramid rs m base = Some (map (\<lambda>k. (pyramid_reduce rs ^^ k) base) [0..<Suc N])"
    and "((\<lambda>d::nat. (d + 1) div 2) ^^ N) (min h w) < 2 * m"
    and "\<forall>k<N. 2 * m \<le> ((\<lambda>d::nat. (d + 1) div 2) ^^ k) (min h w)"
proof -
  let ?g = "\<lambda>d::nat. (d + 1) div 2"
  let ?R = "pyramid_reduce rs"
  have ex: "\<exists>n. (?g ^^ n) (min h w) < 2 * m" by (rule half_up_reaches[OF m])
  show stop: "(?g ^^ N) (min h w) < 2 * m" unfolding N_def by (rule LeastI_ex[OF ex])
  show go: "\<forall>k<N. 2 * m \<le> (?g ^^ k) (min h w)"
  proof (intro allI impI)
    fix k assume "k < N"
    then have "\<not> (?g ^^ k) (min h w) < 2 * m" unfolding N_def by (rule not_less_Least)
    then show "2 * m \<le> (?g ^^ k) (min h w)" by simp
  qed
  have a: "\<forall>k<N. m * 2 \<le> min_list (shape ((?R ^^ k) base))"
    using go by (simp add: min_shape_pow[OF sh] mult.commute)
  have b: "\<not> m * 2 \<le> min_list (shape ((?R ^^ N) base))"
    using stop by (simp add: min_shape_pow[OF sh] mult.commute)
  have "build_pyramid rs m base = Some ([base] @ map (\<lambda>k. (?R ^^ Suc k) base) [0..<N])"
    unfolding build_pyramid_def by (rule pyramid_loop_levels[OF a b])
  also have "[base] @ map (\<lambda>k. (?R ^^ Suc k) base) [0..<N] = map (\<lambda>k. (?R ^^ k) base) [0..<Suc N]"
    by (simp only: map_upt_Suc) simp
  finally show "build_pyramid rs m base = Some (map (\<lambda>k. (?R ^^ k) base) [0..<Suc N])" .
qed

text \<open>
  Claim C2, as the code has it. For a 2D base and a threshold \<open>m \<ge> 1\<close> the builder
  returns a pyramid. Level 0 is the base, unchanged. The dimensions of level \<open>k + 1\<close>
  are those of level \<open>k\<close> halved and rounded up. Every level but the last has its
  smaller dimension at least \<open>2 * m\<close> and the last has it below \<open>2 * m\<close>, so a base
  below the threshold is the whole pyramid. A larger threshold gives a pyramid of no more
  levels.
\<close>

theorem build_pyramid_levels:
  assumes m: "1 \<le> m" and sh: "shape base = [h, w]"
  shows "\<exists>pyramid. build_pyramid resample m base = Some pyramid \<and>
           pyramid \<noteq> [] \<and> pyramid ! 0 = base \<and>
           (\<forall>k. Suc k < length pyramid \<longrightarrow>
                 shape (pyramid ! Suc k) = map (\<lambda>d. (d + 1) div 2) (shape (pyramid ! k)) \<and>
                 2 * m \<le> min_list (shape (pyramid ! k))) \<and>
           min_list (shape (last pyramid)) < 2 * m \<and>
           (min h w < 2 * m \<longrightarrow> pyramid = [base]) \<and>
           (\<forall>m'. m \<le> m' \<longrightarrow>
              (\<exists>pyramid'. build_pyramid resample m' base = Some pyramid' \<and>
                           length pyramid' \<le> length pyramid))"
proof -
  let ?g = "\<lambda>d::nat. (d + 1) div 2"
  let ?R = "pyramid_reduce resample"
  let ?f = "\<lambda>k. (?R ^^ k) base"
  define N where "N = (LEAST n. (?g ^^ n) (min h w) < 2 * m)"
  define pyramid where "pyramid = map ?f [0..<Suc N]"
  note e = build_pyramid_explicit(1)[OF m sh, where rs = resample, folded N_def]
    build_pyramid_explicit(2)[OF m sh, folded N_def]
    build_pyramid_explicit(3)[OF m sh, folded N_def]
  have len: "length pyramid = Suc N" by (simp add: pyramid_def)
  have nth: "pyramid ! k = ?f k" if "k \<le> N" for k
  proof -
    have "k < Suc N - 0" using that by simp
    then have "map ?f [0..<Suc N] ! k = ?f (0 + k)" by (rule nth_map_upt)
    then show ?thesis by (simp add: pyramid_def)
  qed
  have p1: "build_pyramid resample m base = Some pyramid" using e(1) by (simp only: pyramid_def)
  have p2: "pyramid \<noteq> []" using len by auto
  have p3: "pyramid ! 0 = base" using nth[of 0] by simp
  have p4: "\<forall>k. Suc k < length pyramid \<longrightarrow>
                 shape (pyramid ! Suc k) = map ?g (shape (pyramid ! k)) \<and>
                 2 * m \<le> min_list (shape (pyramid ! k))"
  proof (intro allI impI conjI)
    fix k assume "Suc k < length pyramid"
    then have k: "k < N" using len by simp
    have "pyramid ! Suc k = ?R (pyramid ! k)" using k by (simp add: nth)
    then show "shape (pyramid ! Suc k) = map ?g (shape (pyramid ! k))"
      by (simp add: pyramid_reduce_def)
    show "2 * m \<le> min_list (shape (pyramid ! k))"
      using e(3) k by (simp add: nth min_shape_pow[OF sh])
  qed
  have "last pyramid = ?f N" by (simp add: pyramid_def)
  then have p5: "min_list (shape (last pyramid)) < 2 * m"
    using e(2) by (simp add: min_shape_pow[OF sh])
  have p6: "min h w < 2 * m \<longrightarrow> pyramid = [base]"
  proof
    assume "min h w < 2 * m"
    then have "(?g ^^ 0) (min h w) < 2 * m" by simp
    then have "N = 0" unfolding N_def by (rule Least_eq_0)
    then show "pyramid = [base]" by (simp add: pyramid_def)
  qed
  have p7: "\<forall>m'. m \<le> m' \<longrightarrow>
              (\<exists>pyramid'. build_pyramid resample m' base = Some pyramid' \<and>
                           length pyramid' \<le> length pyramid)"
  proof (intro allI impI)
    fix m' assume mm: "m \<le> m'"
    then have m': "1 \<le> m'" using m by simp
    define N' where "N' = (LEAST n. (?g ^^ n) (min h w) < 2 * m')"
    note e' = build_pyramid_explicit(1)[OF m' sh, where rs = resample, folded N'_def]
    have "(?g ^^ N) (min h w) < 2 * m'" using e(2) mm by simp
    then have "N' \<le> N" unfolding N'_def by (rule Least_le)
    then have "length (map ?f [0..<Suc N']) \<le> length pyramid" using len by simp
    with e' show "\<exists>pyramid'. build_pyramid resample m' base = Some pyramid' \<and>
                           length pyramid' \<le> length pyramid" by blast
  qed
  from p1 p2 p3 p4 p5 p6 p7 show ?thesis by blast
qed

text \<open>The pyramid of an image of 4000 rows and 3000 columns with the default threshold.\<close>

theorem build_pyramid_levels_witness:
  "(1::nat) \<le> 512 \<and> shape (zeros [4000, 3000]) = [4000, 3000] \<and>
   (\<exists>pyramid. build_pyramid resample_zero 512 (zeros [4000, 3000]) = Some pyramid \<and>
      pyramid \<noteq> [] \<and> pyramid ! 0 = zeros [4000, 3000] \<and>
      min_list (shape (last pyramid)) < 2 * 512)"
proof -
  have a: "(1::nat) \<le> 512" by simp
  have b: "shape (zeros [4000, 3000]) = [4000, 3000]" by (simp add: zeros_def)
  show ?thesis using a b build_pyramid_levels[OF a b, of resample_zero] by blast
qed

text \<open>
  A base of 1025 by 1025 pixels with the threshold 512 gives a second level of 513 by
  513 pixels, not 512 by 512. With the threshold 0 the builder does not return.
\<close>

theorem build_pyramid_floor_counterexample:
  "map_option (map shape) (build_pyramid resample_zero 512 (zeros [1025, 1025]))
     = Some [[1025, 1025], [513, 513]] \<and>
   (1025::nat) div 2 = 512 \<and>
   build_pyramid resample_zero 0 (zeros [4, 4]) = None"
  by (simp add: build_pyramid_def pyramid_loop.simps[of _ 512] pyramid_loop_diverges zeros_def
      pyramid_reduce_def)

section \<open>Properties of the OME-TIFF emitter\<close>


lemma stride_len_one: "stride_len n 1 = n"
  by (simp add: stride_len_def)

lemma subsample_2d:
  assumes "0 < f" and "shape a = [h, w]"
  shows "\<exists>r. subsample f a = Inr r \<and> shape r = [stride_len h f, stride_len w f] \<and>
             dtype r = dtype a \<and> (\<forall>y x. cell r [y, x] = cell a [y * f, x * f])"
  using assms by (simp add: subsample_def)

lemma read_mrc_Mrc: "fs p = Some (Mrc a) \<Longrightarrow> read_mrc fs p = Inr a"
  by (simp add: read_mrc_def)




section \<open>Properties of the HDF5 emitter\<close>

declare str_nat.simps [simp del]

lemma str_nat_digits: "str_nat 0 = ''0''" "str_nat 1 = ''1''" "str_nat 2 = ''2''"
     "str_nat (Suc 0) = ''1''" "str_nat (Suc (Suc 0)) = ''2''"
  by code_simp+

text \<open>The container that the emitter writes, dataset by dataset.\<close>

lemma hdf5_content_eval:
  "hdf5_content base half quarter nm um compr =
     \<lparr>h5_datasets =
        [(''res0'',
          \<lparr>h5_data = Raster base, h5_compression = Some compr, h5_chunks = True, h5_attrs = [],
           h5_scales = [(0, ''y_scale_res0''), (1, ''x_scale_res0'')],
           h5_labels = [(0, ''y''), (1, ''x'')]\<rparr>),
         (''res1'',
          \<lparr>h5_data = Raster half, h5_compression = Some compr, h5_chunks = True, h5_attrs = [],
           h5_scales = [(0, ''y_scale_res1''), (1, ''x_scale_res1'')],
           h5_labels = [(0, ''y''), (1, ''x'')]\<rparr>),
         (''res2'',
          \<lparr>h5_data = Raster quarter, h5_compression = Some compr, h5_chunks = True, h5_attrs = [],
           h5_scales = [(0, ''y_scale_res2''), (1, ''x_scale_res2'')],
           h5_labels = [(0, ''y''), (1, ''x'')]\<rparr>),
         (''x_scale_res0'',
          \<lparr>h5_data = Axis (arange_times (shape base ! 1) nm), h5_compression = None,
           h5_chunks = False, h5_attrs = [(''units'', AttrStr ''nm''), (''name'', AttrStr ''x'')],
           h5_scales = [], h5_labels = []\<rparr>),
         (''y_scale_res0'',
          \<lparr>h5_data = Axis (arange_times (shape base ! 0) nm), h5_compression = None,
           h5_chunks = False, h5_attrs = [(''units'', AttrStr ''nm''), (''name'', AttrStr ''y'')],
           h5_scales = [], h5_labels = []\<rparr>),
         (''x_scale_res1'',
          \<lparr>h5_data = Axis (arange_times (shape half ! 1) (nm * 2)), h5_compression = None,
           h5_chunks = False, h5_attrs = [(''units'', AttrStr ''nm''), (''name'', AttrStr ''x'')],
           h5_scales = [], h5_labels = []\<rparr>),
         (''y_scale_res1'',
          \<lparr>h5_data = Axis (arange_times (shape half ! 0) (nm * 2)), h5_compression = None,
           h5_chunks = False, h5_attrs = [(''units'', AttrStr ''nm''), (''name'', AttrStr ''y'')],
           h5_scales = [], h5_labels = []\<rparr>),
         (''x_scale_res2'',
          \<lparr>h5_data = Axis (arange_times (shape quarter ! 1) (nm * 4)), h5_compression = None,
           h5_chunks = False, h5_attrs = [(''units'', AttrStr ''nm''), (''name'', AttrStr ''x'')],
           h5_scales = [], h5_labels = []\<rparr>),
         (''y_scale_res2'',
          \<lparr>h5_data = Axis (arange_times (shape quarter ! 0) (nm * 4)), h5_compression = None,
           h5_chunks = False, h5_attrs = [(''units'', AttrStr ''nm''), (''name'', AttrStr ''y'')],
           h5_scales = [], h5_labels = []\<rparr>)],
      h5_file_attrs =
        [(''source'', AttrStr ''SerialEM .mdoc''),
         (''pixel_size_nm'', AttrNum nm), (''pixel_size_um'', AttrNum um),
         (''unit'', AttrStr ''nm'')]\<rparr>"
  by (simp add: hdf5_content_def enumerate_def attach_scales_def Let_def create_dataset_def
     modify_dataset_def dset_shape_def str_nat_digits upt_rec)

lemma create_hdf5_pyramid_plane:
  assumes src: "fs src = Some (Mrc base0)"
    and plane: "(ndim base0 = 2 \<and> base = base0) \<or> (ndim base0 = 3 \<and> first_plane base0 = Inr base)"
    and sh: "shape base = [h, w]"
  shows "\<exists>half quarter.
           subsample 2 base = Inr half \<and> subsample 4 base = Inr quarter \<and>
           shape half = [stride_len h 2, stride_len w 2] \<and>
           shape quarter = [stride_len h 4, stride_len w 4] \<and>
           (\<forall>y x. cell half [y, x] = cell base [y * 2, x * 2]) \<and>
           (\<forall>y x. cell quarter [y, x] = cell base [y * 4, x * 4]) \<and>
           create_hdf5_pyramid fs src out a compr =
             Inr ((fs(key out \<mapsto> H5 (hdf5_content base half quarter (a / 10) (a / 10 / 1000) compr)))
                    (key (with_suffix out ''.xml'') \<mapsto>
                       Xml (bdv_xml_content (p_name out) [h, w] (a / 10 / 1000))))"
proof -
  have p2: "(0::nat) < 2" and p4: "(0::nat) < 4" by simp_all
  from subsample_2d[OF p2 sh] obtain half where half: "subsample 2 base = Inr half"
    "shape half = [stride_len h 2, stride_len w 2]"
    "\<forall>y x. cell half [y, x] = cell base [y * 2, x * 2]" by blast
  from subsample_2d[OF p4 sh] obtain quarter where quarter: "subsample 4 base = Inr quarter"
    "shape quarter = [stride_len h 4, stride_len w 4]"
    "\<forall>y x. cell quarter [y, x] = cell base [y * 4, x * 4]" by blast
  have pl: "(if ndim base0 = 3 then first_plane base0 else Inr base0) = Inr base"
    using plane by auto
  have "create_hdf5_pyramid fs src out a compr =
             Inr ((fs(key out \<mapsto> H5 (hdf5_content base half quarter (a / 10) (a / 10 / 1000) compr)))
                    (key (with_suffix out ''.xml'') \<mapsto>
                       Xml (bdv_xml_content (p_name out) [h, w] (a / 10 / 1000))))"
    using half(1) quarter(1) pl sh
    by (simp add: create_hdf5_pyramid_def read_mrc_Mrc[of fs src base0, OF src] Let_def
        create_bdv_xml_def)
  with half quarter show ?thesis by blast
qed

text \<open>
  Claim C4. For a raster that is 2D, or 3D with its first plane taken, of \<open>h\<close> rows and
  \<open>w\<close> columns, and a calibration \<open>a\<close> in angstrom, the emitter writes a container
  whose datasets are \<open>res0\<close>, \<open>res1\<close>, \<open>res2\<close> and the six scales. Dataset
  \<open>res i\<close> holds the plane subsampled with stride \<open>2 ^ i\<close>: its sample at row \<open>y\<close>
  and column \<open>x\<close> is the sample of the plane at \<open>y * 2 ^ i\<close> and \<open>x * 2 ^ i\<close>. Its axis 0
  is bound to \<open>y_scale_res i\<close> and labelled \<open>y\<close>, its axis 1 to \<open>x_scale_res i\<close> and
  labelled \<open>x\<close>. The \<open>j\<close>-th value of each scale is \<open>j * (a / 10) * 2 ^ i\<close>, and the
  scales carry the unit \<open>nm\<close> and their axis name. The file attributes are the source,
  \<open>pixel_size_nm = a / 10\<close>, \<open>pixel_size_um = a / 10 / 1000\<close> and the unit. (The
  output path does not end in \<open>.xml\<close>, where the descriptor is written.)
\<close>

theorem hdf5_levels_and_scales:
  assumes src: "fs src = Some (Mrc base0)"
    and plane: "(ndim base0 = 2 \<and> base = base0) \<or> (ndim base0 = 3 \<and> first_plane base0 = Inr base)"
    and sh: "shape base = [h, w]"
    and suf: "p_suffix out \<noteq> ''.xml''"
  shows "\<exists>fs' h5.
           create_hdf5_pyramid fs src out a compr = Inr fs' \<and>
           fs' (key out) = Some (H5 h5) \<and>
           map fst (h5_datasets h5) =
             [''res0'', ''res1'', ''res2'', ''x_scale_res0'', ''y_scale_res0'',
              ''x_scale_res1'', ''y_scale_res1'', ''x_scale_res2'', ''y_scale_res2''] \<and>
           (\<forall>i<3. \<exists>d r xs ys.
              map_of (h5_datasets h5) (''res'' @ str_nat i) = Some d \<and>
              h5_data d = Raster r \<and>
              shape r = [stride_len h (2 ^ i), stride_len w (2 ^ i)] \<and>
              (\<forall>y x. cell r [y, x] = cell base [y * 2 ^ i, x * 2 ^ i]) \<and>
              h5_scales d = [(0, ''y_scale_res'' @ str_nat i), (1, ''x_scale_res'' @ str_nat i)] \<and>
              h5_labels d = [(0, ''y''), (1, ''x'')] \<and>
              map_of (h5_datasets h5) (''x_scale_res'' @ str_nat i) = Some xs \<and>
              h5_data xs = Axis (map (\<lambda>j. real j * (a / 10) * 2 ^ i) [0..<stride_len w (2 ^ i)]) \<and>
              h5_attrs xs = [(''units'', AttrStr ''nm''), (''name'', AttrStr ''x'')] \<and>
              map_of (h5_datasets h5) (''y_scale_res'' @ str_nat i) = Some ys \<and>
              h5_data ys = Axis (map (\<lambda>j. real j * (a / 10) * 2 ^ i) [0..<stride_len h (2 ^ i)]) \<and>
              h5_attrs ys = [(''units'', AttrStr ''nm''), (''name'', AttrStr ''y'')]) \<and>
           h5_file_attrs h5 =
             [(''source'', AttrStr ''SerialEM .mdoc''),
              (''pixel_size_nm'', AttrNum (a / 10)),
              (''pixel_size_um'', AttrNum (a / 10 / 1000)),
              (''unit'', AttrStr ''nm'')]"
proof -
  from create_hdf5_pyramid_plane[of fs src base0 base h w out a compr, OF src plane sh]
  obtain half quarter where
    shh: "shape half = [stride_len h 2, stride_len w 2]" and
    shq: "shape quarter = [stride_len h 4, stride_len w 4]" and
    ch: "\<forall>y x. cell half [y, x] = cell base [y * 2, x * 2]" and
    cq: "\<forall>y x. cell quarter [y, x] = cell base [y * 4, x * 4]" and
    res: "create_hdf5_pyramid fs src out a compr =
             Inr ((fs(key out \<mapsto> H5 (hdf5_content base half quarter (a / 10) (a / 10 / 1000) compr)))
                    (key (with_suffix out ''.xml'') \<mapsto>
                       Xml (bdv_xml_content (p_name out) [h, w] (a / 10 / 1000))))"
    by blast
  define h5f where "h5f = hdf5_content base half quarter (a / 10) (a / 10 / 1000) compr"
  note ev = hdf5_content_eval[of base half quarter "a / 10" "a / 10 / 1000" compr, folded h5f_def]
  let ?fs' = "(fs(key out \<mapsto> H5 h5f))(key (with_suffix out ''.xml'') \<mapsto>
                       Xml (bdv_xml_content (p_name out) [h, w] (a / 10 / 1000)))"
  have k: "key (with_suffix out ''.xml'') \<noteq> key out"
    using suf by (simp add: key_def with_suffix_def p_name_def)
  have c1: "create_hdf5_pyramid fs src out a compr = Inr ?fs'" using res by (simp only: h5f_def)
  have c2: "?fs' (key out) = Some (H5 h5f)" using k by simp
  have c3: "map fst (h5_datasets h5f) =
             [''res0'', ''res1'', ''res2'', ''x_scale_res0'', ''y_scale_res0'',
              ''x_scale_res1'', ''y_scale_res1'', ''x_scale_res2'', ''y_scale_res2'']"
    by (simp add: ev)
  have c5: "h5_file_attrs h5f =
             [(''source'', AttrStr ''SerialEM .mdoc''),
              (''pixel_size_nm'', AttrNum (a / 10)),
              (''pixel_size_um'', AttrNum (a / 10 / 1000)),
              (''unit'', AttrStr ''nm'')]"
    by (simp add: ev)
  let ?L = "\<lambda>i. \<exists>d r xs ys.
              map_of (h5_datasets h5f) (''res'' @ str_nat i) = Some d \<and>
              h5_data d = Raster r \<and>
              shape r = [stride_len h (2 ^ i), stride_len w (2 ^ i)] \<and>
              (\<forall>y x. cell r [y, x] = cell base [y * 2 ^ i, x * 2 ^ i]) \<and>
              h5_scales d = [(0, ''y_scale_res'' @ str_nat i), (1, ''x_scale_res'' @ str_nat i)] \<and>
              h5_labels d = [(0, ''y''), (1, ''x'')] \<and>
              map_of (h5_datasets h5f) (''x_scale_res'' @ str_nat i) = Some xs \<and>
              h5_data xs = Axis (map (\<lambda>j. real j * (a / 10) * 2 ^ i) [0..<stride_len w (2 ^ i)]) \<and>
              h5_attrs xs = [(''units'', AttrStr ''nm''), (''name'', AttrStr ''x'')] \<and>
              map_of (h5_datasets h5f) (''y_scale_res'' @ str_nat i) = Some ys \<and>
              h5_data ys = Axis (map (\<lambda>j. real j * (a / 10) * 2 ^ i) [0..<stride_len h (2 ^ i)]) \<and>
              h5_attrs ys = [(''units'', AttrStr ''nm''), (''name'', AttrStr ''y'')]"
  have l0: "?L 0"
    by (simp add: ev str_nat_digits sh stride_len_def arange_times_def)
  have l1: "?L 1"
    using ch by (simp add: ev str_nat_digits shh arange_times_def mult.assoc)
  have l2: "?L 2"
    using cq by (simp add: ev str_nat_digits shq arange_times_def mult.assoc)
  have c4: "\<forall>i<3. ?L i"
  proof (intro allI impI)
    fix i :: nat assume "i < 3"
    then have "i = 0 \<or> i = 1 \<or> i = 2" by arith
    with l0 l1 l2 show "?L i" by blast
  qed
  show ?thesis
    by (rule exI[of _ ?fs'], rule exI[of _ h5f]) (intro conjI c1 c2 c3 c4 c5)
qed

text \<open>A stack of two planes of 5 by 7 pixels at 15 angstrom.\<close>

theorem hdf5_levels_and_scales_witness:
  "(Map.empty((''d'', ''a_blended.mrc'') \<mapsto> Mrc (zeros [2, 5, 7]))) (''d'', ''a_blended.mrc'')
     = Some (Mrc (zeros [2, 5, 7])) \<and>
   ndim (zeros [2, 5, 7]) = 3 \<and> first_plane (zeros [2, 5, 7]) = Inr (zeros [5, 7]) \<and>
   shape (zeros [5, 7]) = [5, 7] \<and>
   (\<exists>fs' h5 d r xs.
      create_hdf5_pyramid (Map.empty((''d'', ''a_blended.mrc'') \<mapsto> Mrc (zeros [2, 5, 7])))
        (''d'', ''a_blended.mrc'') \<lparr>p_parent = ''d'', p_stem = ''a'', p_suffix = ''.h5''\<rparr> 15 ''gzip''
        = Inr fs' \<and>
      fs' (''d'', ''a.h5'') = Some (H5 h5) \<and>
      length (h5_datasets h5) = 9 \<and>
      map_of (h5_datasets h5) ''res2'' = Some d \<and> h5_data d = Raster r \<and> shape r = [2, 2] \<and>
      map_of (h5_datasets h5) ''x_scale_res2'' = Some xs \<and> h5_data xs = Axis [0, 6] \<and>
      map_of (h5_file_attrs h5) ''pixel_size_nm'' = Some (AttrNum (3 / 2)))"
proof -
  let ?fs = "Map.empty((''d'', ''a_blended.mrc'') \<mapsto> Mrc (zeros [2, 5, 7]))"
  let ?out = "\<lparr>p_parent = ''d'', p_stem = ''a'', p_suffix = ''.h5''\<rparr>"
  have a: "?fs (''d'', ''a_blended.mrc'') = Some (Mrc (zeros [2, 5, 7]))" by simp
  have n: "ndim (zeros [2, 5, 7]) = 3" by (simp add: ndim_def zeros_def)
  have fp: "first_plane (zeros [2, 5, 7]) = Inr (zeros [5, 7])"
    by (simp add: first_plane_def zeros_def)
  have b: "(ndim (zeros [2, 5, 7]) = 2 \<and> zeros [5, 7] = zeros [2, 5, 7]) \<or>
           (ndim (zeros [2, 5, 7]) = 3 \<and> first_plane (zeros [2, 5, 7]) = Inr (zeros [5, 7]))"
    using n fp by simp
  have c: "shape (zeros [5, 7]) = [5, 7]" by (simp add: zeros_def)
  have d: "p_suffix ?out \<noteq> ''.xml''" by simp
  from hdf5_levels_and_scales[of ?fs "(''d'', ''a_blended.mrc'')" "zeros [2, 5, 7]" "zeros [5, 7]"
      5 7 ?out 15 "''gzip''", OF a b c d]
  obtain fs' h5 where r1: "create_hdf5_pyramid ?fs (''d'', ''a_blended.mrc'') ?out 15 ''gzip'' = Inr fs'"
    and r2: "fs' (key ?out) = Some (H5 h5)"
    and r3: "map fst (h5_datasets h5) =
             [''res0'', ''res1'', ''res2'', ''x_scale_res0'', ''y_scale_res0'',
              ''x_scale_res1'', ''y_scale_res1'', ''x_scale_res2'', ''y_scale_res2'']"
    and r4: "\<forall>i<3. \<exists>d r xs ys.
              map_of (h5_datasets h5) (''res'' @ str_nat i) = Some d \<and>
              h5_data d = Raster r \<and>
              shape r = [stride_len 5 (2 ^ i), stride_len 7 (2 ^ i)] \<and>
              (\<forall>y x. cell r [y, x] = cell (zeros [5, 7]) [y * 2 ^ i, x * 2 ^ i]) \<and>
              h5_scales d = [(0, ''y_scale_res'' @ str_nat i), (1, ''x_scale_res'' @ str_nat i)] \<and>
              h5_labels d = [(0, ''y''), (1, ''x'')] \<and>
              map_of (h5_datasets h5) (''x_scale_res'' @ str_nat i) = Some xs \<and>
              h5_data xs = Axis (map (\<lambda>j. real j * (15 / 10) * 2 ^ i) [0..<stride_len 7 (2 ^ i)]) \<and>
              h5_attrs xs = [(''units'', AttrStr ''nm''), (''name'', AttrStr ''x'')] \<and>
              map_of (h5_datasets h5) (''y_scale_res'' @ str_nat i) = Some ys \<and>
              h5_data ys = Axis (map (\<lambda>j. real j * (15 / 10) * 2 ^ i) [0..<stride_len 5 (2 ^ i)]) \<and>
              h5_attrs ys = [(''units'', AttrStr ''nm''), (''name'', AttrStr ''y'')]"
    and r5: "h5_file_attrs h5 =
             [(''source'', AttrStr ''SerialEM .mdoc''),
              (''pixel_size_nm'', AttrNum (15 / 10)),
              (''pixel_size_um'', AttrNum (15 / 10 / 1000)),
              (''unit'', AttrStr ''nm'')]"
    by (elim exE conjE) (rule that)
  have "(2::nat) < 3" by simp
  with r4 obtain d r xs where
    "map_of (h5_datasets h5) (''res'' @ str_nat 2) = Some d" "h5_data d = Raster r"
    "shape r = [stride_len 5 (2 ^ 2), stride_len 7 (2 ^ 2)]"
    "map_of (h5_datasets h5) (''x_scale_res'' @ str_nat 2) = Some xs"
    "h5_data xs = Axis (map (\<lambda>j. real j * (15 / 10) * 2 ^ 2) [0..<stride_len 7 (2 ^ 2)])"
    by blast
  then have e: "map_of (h5_datasets h5) ''res2'' = Some d \<and> h5_data d = Raster r \<and> shape r = [2, 2] \<and>
      map_of (h5_datasets h5) ''x_scale_res2'' = Some xs \<and> h5_data xs = Axis [0, 6]"
    by (simp add: str_nat_digits stride_len_def upt_rec)
  have l: "length (h5_datasets h5) = 9" using arg_cong[OF r3, of length] by simp
  have f: "map_of (h5_file_attrs h5) ''pixel_size_nm'' = Some (AttrNum (3 / 2))"
    by (simp add: r5)
  have g: "fs' (''d'', ''a.h5'') = Some (H5 h5)" using r2 by (simp add: key_def p_name_def)
  from r1 g l e f have "\<exists>fs' h5 d r xs.
      create_hdf5_pyramid ?fs (''d'', ''a_blended.mrc'') ?out 15 ''gzip'' = Inr fs' \<and>
      fs' (''d'', ''a.h5'') = Some (H5 h5) \<and>
      length (h5_datasets h5) = 9 \<and>
      map_of (h5_datasets h5) ''res2'' = Some d \<and> h5_data d = Raster r \<and> shape r = [2, 2] \<and>
      map_of (h5_datasets h5) ''x_scale_res2'' = Some xs \<and> h5_data xs = Axis [0, 6] \<and>
      map_of (h5_file_attrs h5) ''pixel_size_nm'' = Some (AttrNum (3 / 2))" by blast
  with a n fp c show ?thesis by blast
qed

section \<open>Properties of the BigDataViewer descriptor\<close>

text \<open>
  Claim C9. For a base plane of \<open>h\<close> rows and \<open>w\<close> columns and a calibration \<open>a\<close>,
  so the pixel size \<open>p = a / 10 / 1000\<close> in micrometers, the emitter writes beside the
  container, under the same stem with the suffix \<open>.xml\<close>, a descriptor that refers to
  the container by its bare name, relative; that has one view setup of size
  \<open>w h 1\<close> with the voxel size \<open>p p p\<close> and one channel attribute; whose timepoints
  are the range from 0 to 0; and that has one view registration, whose affine matrix of
  3 rows and 4 columns has \<open>p\<close> on the diagonal and 0 elsewhere.
\<close>

theorem bdv_xml_descriptor:
  assumes src: "fs src = Some (Mrc base0)"
    and plane: "(ndim base0 = 2 \<and> base = base0) \<or> (ndim base0 = 3 \<and> first_plane base0 = Inr base)"
    and sh: "shape base = [h, w]"
  shows "\<exists>fs' doc m.
           create_hdf5_pyramid fs src out a compr = Inr fs' \<and>
           fs' (p_parent out, p_stem out @ ''.xml'') = Some (Xml doc) \<and>
           doc = bdv_xml_content (p_name out) [h, w] (a / 10 / 1000) \<and>
           descend [''SequenceDescription'', ''ImageLoader'', ''hdf5''] doc
             = Some (Element ''hdf5'' [(''type'', ''relative'')] [Text [Lit (p_name out)]]) \<and>
           map_option (\<lambda>vs. map tag (children vs))
               (descend [''SequenceDescription'', ''ViewSetups''] doc)
             = Some [''ViewSetup'', ''Attributes''] \<and>
           descend [''SequenceDescription'', ''ViewSetups'', ''ViewSetup'', ''size''] doc
             = Some (Element ''size'' [] [Text [Num w, Num h, Lit ''1'']]) \<and>
           descend [''SequenceDescription'', ''ViewSetups'', ''ViewSetup'', ''voxelSize'', ''size''] doc
             = Some (Element ''size'' []
                       [Text [Flt (a / 10 / 1000), Flt (a / 10 / 1000), Flt (a / 10 / 1000)]]) \<and>
           descend [''SequenceDescription'', ''ViewSetups'', ''ViewSetup'', ''attributes''] doc
             = Some (Element ''attributes'' [] [Element ''channel'' [] [Text [Lit ''1'']]]) \<and>
           descend [''SequenceDescription'', ''Timepoints''] doc
             = Some (Element ''Timepoints'' [(''type'', ''range'')]
                       [Element ''first'' [] [Text [Lit ''0'']],
                        Element ''last'' [] [Text [Lit ''0'']]]) \<and>
           map_option (\<lambda>vr. map tag (children vr)) (descend [''ViewRegistrations''] doc)
             = Some [''ViewRegistration''] \<and>
           descend [''ViewRegistrations'', ''ViewRegistration'', ''ViewTransform''] doc
             = Some (Element ''ViewTransform'' [(''type'', ''affine'')]
                       [Element ''affine'' [] [Text m]]) \<and>
           length m = 12 \<and>
           (\<forall>r<3. \<forall>c<4. m ! (4 * r + c) = Flt (if r = c then a / 10 / 1000 else 0))"
proof -
  let ?p = "a / 10 / 1000"
  let ?doc = "bdv_xml_content (p_name out) [h, w] ?p"
  let ?m = "map Flt [?p, 0, 0, 0, 0, ?p, 0, 0, 0, 0, ?p, 0]"
  from create_hdf5_pyramid_plane[of fs src base0 base h w out a compr, OF src plane sh]
  obtain half quarter where
    res: "create_hdf5_pyramid fs src out a compr =
             Inr ((fs(key out \<mapsto> H5 (hdf5_content base half quarter (a / 10) ?p compr)))
                    (key (with_suffix out ''.xml'') \<mapsto> Xml ?doc))"
    by blast
  let ?fs' = "(fs(key out \<mapsto> H5 (hdf5_content base half quarter (a / 10) ?p compr)))
                    (key (with_suffix out ''.xml'') \<mapsto> Xml ?doc)"
  have c2: "?fs' (p_parent out, p_stem out @ ''.xml'') = Some (Xml ?doc)"
    by (simp add: key_def with_suffix_def p_name_def)
  have c3: "?doc = bdv_xml_content (p_name out) [h, w] ?p" by simp
  have c4: "descend [''SequenceDescription'', ''ImageLoader'', ''hdf5''] ?doc
             = Some (Element ''hdf5'' [(''type'', ''relative'')] [Text [Lit (p_name out)]])"
    by (simp add: bdv_xml_content_def Let_def)
  have c5: "map_option (\<lambda>vs. map tag (children vs))
               (descend [''SequenceDescription'', ''ViewSetups''] ?doc)
             = Some [''ViewSetup'', ''Attributes'']"
    by (simp add: bdv_xml_content_def Let_def)
  have c6: "descend [''SequenceDescription'', ''ViewSetups'', ''ViewSetup'', ''size''] ?doc
             = Some (Element ''size'' [] [Text [Num w, Num h, Lit ''1'']])"
    by (simp add: bdv_xml_content_def Let_def)
  have c7: "descend [''SequenceDescription'', ''ViewSetups'', ''ViewSetup'', ''voxelSize'', ''size''] ?doc
             = Some (Element ''size'' [] [Text [Flt ?p, Flt ?p, Flt ?p]])"
    by (simp add: bdv_xml_content_def Let_def)
  have c8: "descend [''SequenceDescription'', ''ViewSetups'', ''ViewSetup'', ''attributes''] ?doc
             = Some (Element ''attributes'' [] [Element ''channel'' [] [Text [Lit ''1'']]])"
    by (simp add: bdv_xml_content_def Let_def)
  have c9: "descend [''SequenceDescription'', ''Timepoints''] ?doc
             = Some (Element ''Timepoints'' [(''type'', ''range'')]
                       [Element ''first'' [] [Text [Lit ''0'']],
                        Element ''last'' [] [Text [Lit ''0'']]])"
    by (simp add: bdv_xml_content_def Let_def)
  have c10: "map_option (\<lambda>vr. map tag (children vr)) (descend [''ViewRegistrations''] ?doc)
             = Some [''ViewRegistration'']"
    by (simp add: bdv_xml_content_def Let_def)
  have c10': "descend [''ViewRegistrations'', ''ViewRegistration'', ''ViewTransform''] ?doc
             = Some (Element ''ViewTransform'' [(''type'', ''affine'')]
                       [Element ''affine'' [] [Text ?m]])"
    by (simp add: bdv_xml_content_def Let_def)
  have c11: "length ?m = 12" by simp
  have c12: "\<forall>r<3. \<forall>c<4. ?m ! (4 * r + c) = Flt (if r = c then ?p else 0)"
  proof (intro allI impI)
    fix r c :: nat assume "r < 3" "c < 4"
    then have "(r = 0 \<or> r = 1 \<or> r = 2) \<and> (c = 0 \<or> c = 1 \<or> c = 2 \<or> c = 3)" by arith
    then show "?m ! (4 * r + c) = Flt (if r = c then ?p else 0)" by auto
  qed
  show ?thesis
    by (rule exI[of _ ?fs'], rule exI[of _ ?doc], rule exI[of _ ?m])
       (intro conjI res c2 c3 c4 c5 c6 c7 c8 c9 c10 c10' c11 c12)
qed

text \<open>The descriptor of a plane of 5 by 7 pixels at 15 angstrom.\<close>

theorem bdv_xml_descriptor_witness:
  "(Map.empty((''d'', ''a_blended.mrc'') \<mapsto> Mrc (zeros [5, 7]))) (''d'', ''a_blended.mrc'')
     = Some (Mrc (zeros [5, 7])) \<and>
   ndim (zeros [5, 7]) = 2 \<and> shape (zeros [5, 7]) = [5, 7] \<and>
   (\<exists>fs' doc m.
      create_hdf5_pyramid (Map.empty((''d'', ''a_blended.mrc'') \<mapsto> Mrc (zeros [5, 7])))
        (''d'', ''a_blended.mrc'') \<lparr>p_parent = ''d'', p_stem = ''a'', p_suffix = ''.h5''\<rparr> 15 ''gzip''
        = Inr fs' \<and>
      fs' (''d'', ''a.xml'') = Some (Xml doc) \<and>
      descend [''SequenceDescription'', ''ImageLoader'', ''hdf5''] doc
        = Some (Element ''hdf5'' [(''type'', ''relative'')] [Text [Lit ''a.h5'']]) \<and>
      descend [''SequenceDescription'', ''ViewSetups'', ''ViewSetup'', ''size''] doc
        = Some (Element ''size'' [] [Text [Num 7, Num 5, Lit ''1'']]) \<and>
      descend [''ViewRegistrations'', ''ViewRegistration'', ''ViewTransform''] doc
        = Some (Element ''ViewTransform'' [(''type'', ''affine'')]
                  [Element ''affine'' [] [Text m]]) \<and>
      m ! 5 = Flt (3 / 2000) \<and> m ! 6 = Flt 0)"
proof -
  let ?fs = "Map.empty((''d'', ''a_blended.mrc'') \<mapsto> Mrc (zeros [5, 7]))"
  let ?out = "\<lparr>p_parent = ''d'', p_stem = ''a'', p_suffix = ''.h5''\<rparr>"
  have a: "?fs (''d'', ''a_blended.mrc'') = Some (Mrc (zeros [5, 7]))" by simp
  have n: "ndim (zeros [5, 7]) = 2" by (simp add: ndim_def zeros_def)
  have b: "(ndim (zeros [5, 7]) = 2 \<and> zeros [5, 7] = zeros [5, 7]) \<or>
           (ndim (zeros [5, 7]) = 3 \<and> first_plane (zeros [5, 7]) = Inr (zeros [5, 7]))"
    using n by simp
  have c: "shape (zeros [5, 7]) = [5, 7]" by (simp add: zeros_def)
  from bdv_xml_descriptor[of ?fs "(''d'', ''a_blended.mrc'')" "zeros [5, 7]" "zeros [5, 7]"
      5 7 ?out 15 "''gzip''", OF a b c]
  obtain fs' doc m where r1: "create_hdf5_pyramid ?fs (''d'', ''a_blended.mrc'') ?out 15 ''gzip'' = Inr fs'"
    and r2: "fs' (p_parent ?out, p_stem ?out @ ''.xml'') = Some (Xml doc)"
    and r3: "descend [''SequenceDescription'', ''ImageLoader'', ''hdf5''] doc
             = Some (Element ''hdf5'' [(''type'', ''relative'')] [Text [Lit (p_name ?out)]])"
    and r4: "descend [''SequenceDescription'', ''ViewSetups'', ''ViewSetup'', ''size''] doc
             = Some (Element ''size'' [] [Text [Num 7, Num 5, Lit ''1'']])"
    and r5: "descend [''ViewRegistrations'', ''ViewRegistration'', ''ViewTransform''] doc
             = Some (Element ''ViewTransform'' [(''type'', ''affine'')]
                       [Element ''affine'' [] [Text m]])"
    and r6: "\<forall>r<3. \<forall>c<4. m ! (4 * r + c) = Flt (if r = c then 15 / 10 / 1000 else 0)"
    by (elim exE conjE) (rule that)
  have "m ! (4 * 1 + 1) = Flt (if (1::nat) = 1 then 15 / 10 / 1000 else 0)"
    using r6[rule_format, of 1 1] by simp
  then have m5: "m ! 5 = Flt (3 / 2000)" by simp
  have "m ! (4 * 1 + 2) = Flt (if (1::nat) = 2 then 15 / 10 / 1000 else 0)"
    using r6[rule_format, of 1 2] by simp
  then have m6: "m ! 6 = Flt 0" by simp
  have "create_hdf5_pyramid ?fs (''d'', ''a_blended.mrc'') ?out 15 ''gzip'' = Inr fs' \<and>
      fs' (''d'', ''a.xml'') = Some (Xml doc) \<and>
      descend [''SequenceDescription'', ''ImageLoader'', ''hdf5''] doc
        = Some (Element ''hdf5'' [(''type'', ''relative'')] [Text [Lit ''a.h5'']]) \<and>
      descend [''SequenceDescription'', ''ViewSetups'', ''ViewSetup'', ''size''] doc
        = Some (Element ''size'' [] [Text [Num 7, Num 5, Lit ''1'']]) \<and>
      descend [''ViewRegistrations'', ''ViewRegistration'', ''ViewTransform''] doc
        = Some (Element ''ViewTransform'' [(''type'', ''affine'')]
                  [Element ''affine'' [] [Text m]]) \<and>
      m ! 5 = Flt (3 / 2000) \<and> m ! 6 = Flt 0"
    using r1 r2 r3 r4 r5 m5 m6 by (simp add: p_name_def)
  then show ?thesis using a n c by blast
qed

section \<open>Properties of the batch orchestrator\<close>








text \<open>The OME-TIFF emitter refuses exactly the rasters that are not 2D.\<close>

lemma tiff_emitter_not_2d:
  assumes "fs src = Some (Mrc base0)"
  shows "(create_ome_bigtiff_pyramid rs fs src out a m ts compr f
            = Some (Inl (ValueError ''Image must be 2D.''))) = (ndim base0 \<noteq> 2)"
proof (cases "ndim base0 = 2")
  case False
  then show ?thesis
    using assms by (simp add: create_ome_bigtiff_pyramid_def read_mrc_def)
next
  case True
  then obtain h w where sh: "shape base0 = [h, w]"
    by (cases "shape base0"; cases "tl (shape base0)") (auto simp: ndim_def)
  have "create_ome_bigtiff_pyramid rs fs src out a m ts compr f
            \<noteq> Some (Inl (ValueError ''Image must be 2D.''))"
    using assms sh True
    by (auto simp add: create_ome_bigtiff_pyramid_def read_mrc_def subsample_def Let_def
        write_tiff_def split: option.splits sum.splits list.splits)
  with True show ?thesis by simp
qed






lemma process_not_2d:
  assumes md: "fs (p_parent mrc, p_stem mrc @ p_suffix mrc @ ''.mdoc'') = Some (Mdoc linhas)"
    and mg: "fst (get_mag float_of (path_str (with_suffix mrc (p_suffix mrc @ ''.mdoc'')))
                   (Some linhas)) = Some mag"
    and ex: "cygwin (Extractpieces (p_parent mrc) (p_name mrc) ''montage_plf'') fs = (True, fs1)"
    and bl: "cygwin (Blendmont (p_parent mrc) (p_name mrc) ''montage_plf''
                       (p_stem mrc @ ''_blended.mrc'') ''MONTAGE_EDGES'') fs1 = (True, fs2)"
    and no: "\<forall>img. fs2 (p_parent mrc, p_stem mrc @ ''_blended.mrc'') = Some (Mrc img) \<longrightarrow> ndim img \<noteq> 2"
  shows "process_mrc_file cygwin rs float_of create_h5 mrc fs = Some (False, fs2)"
proof (cases "fs2 (p_parent mrc, p_stem mrc @ ''_blended.mrc'')")
  case None
  then show ?thesis using md mg ex bl
    by (simp add: process_mrc_file_def Let_def key_def with_suffix_def p_name_def
        run_cygwin_command_def)
next
  case (Some y)
  show ?thesis
  proof (cases "\<exists>img. y = Mrc img")
    case False
    then have "\<exists>e. read_mrc fs2 (p_parent mrc, p_stem mrc @ ''_blended.mrc'') = Inl e"
      using Some by (cases y) (simp_all add: read_mrc_def)
    then obtain e where "read_mrc fs2 (p_parent mrc, p_stem mrc @ ''_blended.mrc'') = Inl e" ..
    then show ?thesis using md mg ex bl Some
      by (simp add: process_mrc_file_def Let_def key_def with_suffix_def p_name_def
          run_cygwin_command_def)
  next
    case True
    then obtain img where y: "y = Mrc img" ..
    have im: "fs2 (p_parent mrc, p_stem mrc @ ''_blended.mrc'') = Some (Mrc img)"
      using Some y by simp
    have nd: "ndim img \<noteq> 2" using no im by blast
    have rd: "read_mrc fs2 (p_parent mrc, p_stem mrc @ ''_blended.mrc'') = Inr img"
      using im by (simp add: read_mrc_def)
    have te: "create_ome_bigtiff_pyramid rs fs2 (p_parent mrc, p_stem mrc @ ''_blended.mrc'')
                 out mag 512 256 ''deflate'' f = Some (Inl (ValueError ''Image must be 2D.''))" for out f
      using nd rd by (simp add: create_ome_bigtiff_pyramid_def)
    show ?thesis using md mg ex bl im rd
      by (simp add: process_mrc_file_def Let_def key_def with_suffix_def p_name_def
          run_cygwin_command_def te split: sum.splits list.splits)
  qed
qed


lemma first_plane_3d:
  assumes "ndim img = 3" and "first_plane img = Inr plane"
  shows "\<exists>h w. shape plane = [h, w]"
proof -
  from assms(1) obtain s0 s1 s2 where "shape img = [s0, s1, s2]"
    by (cases "shape img"; cases "tl (shape img)"; cases "tl (tl (shape img))")
       (auto simp: ndim_def)
  with assms(2) show ?thesis by (auto simp add: first_plane_def split: if_splits)
qed

text \<open>
  Claim C8, as the code has it. The descriptor is read and the stitcher has left a
  blended raster. The OME-TIFF emitter raises the error \<open>Image must be 2D.\<close> exactly
  when the raster is not 2D, a 3D stack included. The orchestrator runs that emitter on
  every blended raster, so for a raster that is not 2D it reports the file as failed,
  with the disk as the stitcher left it, and the batch goes on with the next file. The
  HDF5 emitter alone takes a 3D stack: it writes the first plane as \<open>res0\<close>.
\<close>

theorem dimensionality_error:
  assumes md: "fs (p_parent mrc, p_stem mrc @ p_suffix mrc @ ''.mdoc'') = Some (Mdoc linhas)"
    and mg: "fst (get_mag float_of (path_str (with_suffix mrc (p_suffix mrc @ ''.mdoc'')))
                   (Some linhas)) = Some mag"
    and ex: "cygwin (Extractpieces (p_parent mrc) (p_name mrc) ''montage_plf'') fs = (True, fs1)"
    and bl: "cygwin (Blendmont (p_parent mrc) (p_name mrc) ''montage_plf''
                       (p_stem mrc @ ''_blended.mrc'') ''MONTAGE_EDGES'') fs1 = (True, fs2)"
    and im: "fs2 (p_parent mrc, p_stem mrc @ ''_blended.mrc'') = Some (Mrc img)"
  shows "((create_ome_bigtiff_pyramid rs fs2 (p_parent mrc, p_stem mrc @ ''_blended.mrc'') out a
             min_size tile_size compr f = Some (Inl (ValueError ''Image must be 2D.'')))
            = (ndim img \<noteq> 2)) \<and>
         (ndim img \<noteq> 2 \<longrightarrow>
            process_mrc_file cygwin rs float_of create_h5 mrc fs = Some (False, fs2) \<and>
            run_batch cygwin rs float_of create_h5 (mrc # rest) n fs
              = run_batch cygwin rs float_of create_h5 rest n fs2) \<and>
         (ndim img = 3 \<and> first_plane img = Inr plane \<and> p_suffix outp \<noteq> ''.xml'' \<longrightarrow>
            (\<exists>fs' h5 d.
               create_hdf5_pyramid fs2 (p_parent mrc, p_stem mrc @ ''_blended.mrc'') outp a compr
                 = Inr fs' \<and>
               fs' (key outp) = Some (H5 h5) \<and>
               map_of (h5_datasets h5) ''res0'' = Some d \<and> h5_data d = Raster plane))"
proof (intro conjI impI)
  let ?cblf = "(p_parent mrc, p_stem mrc @ ''_blended.mrc'')"
  show "(create_ome_bigtiff_pyramid rs fs2 ?cblf out a min_size tile_size compr f
           = Some (Inl (ValueError ''Image must be 2D.''))) = (ndim img \<noteq> 2)"
    by (rule tiff_emitter_not_2d[of fs2 ?cblf img, OF im])
  {
    assume nd: "ndim img \<noteq> 2"
    have no: "\<forall>i. fs2 ?cblf = Some (Mrc i) \<longrightarrow> ndim i \<noteq> 2" using im nd by simp
    show p: "process_mrc_file cygwin rs float_of create_h5 mrc fs = Some (False, fs2)"
      by (rule process_not_2d[of fs mrc linhas float_of mag cygwin fs1 fs2, OF md mg ex bl no])
    show "run_batch cygwin rs float_of create_h5 (mrc # rest) n fs
              = run_batch cygwin rs float_of create_h5 rest n fs2"
      by (simp add: p)
  }
  {
    assume h: "ndim img = 3 \<and> first_plane img = Inr plane \<and> p_suffix outp \<noteq> ''.xml''"
    then have pl: "(ndim img = 2 \<and> plane = img) \<or> (ndim img = 3 \<and> first_plane img = Inr plane)"
      by simp
    from first_plane_3d[of img plane] h obtain ph pw where sh: "shape plane = [ph, pw]" by blast
    from create_hdf5_pyramid_plane[of fs2 ?cblf img plane ph pw outp a compr, OF im pl sh]
    obtain half quarter where
      e: "create_hdf5_pyramid fs2 ?cblf outp a compr =
             Inr ((fs2(key outp \<mapsto> H5 (hdf5_content plane half quarter (a / 10) (a / 10 / 1000) compr)))
                    (key (with_suffix outp ''.xml'') \<mapsto>
                       Xml (bdv_xml_content (p_name outp) [ph, pw] (a / 10 / 1000))))"
      by (elim exE conjE) (rule that)
    let ?h5 = "hdf5_content plane half quarter (a / 10) (a / 10 / 1000) compr"
    let ?fs' = "(fs2(key outp \<mapsto> H5 ?h5))(key (with_suffix outp ''.xml'') \<mapsto>
                       Xml (bdv_xml_content (p_name outp) [ph, pw] (a / 10 / 1000)))"
    let ?d = "\<lparr>h5_data = Raster plane, h5_compression = Some compr, h5_chunks = True, h5_attrs = [],
           h5_scales = [(0, ''y_scale_res0''), (1, ''x_scale_res0'')],
           h5_labels = [(0, ''y''), (1, ''x'')]\<rparr>"
    have k: "key (with_suffix outp ''.xml'') \<noteq> key outp"
      using h by (auto simp add: key_def with_suffix_def p_name_def)
    have a1: "?fs' (key outp) = Some (H5 ?h5)" using k by simp
    have a2: "map_of (h5_datasets ?h5) ''res0'' = Some ?d" by (simp add: hdf5_content_eval)
    have a3: "h5_data ?d = Raster plane" by simp
    show "\<exists>fs' h5 d.
               create_hdf5_pyramid fs2 ?cblf outp a compr = Inr fs' \<and>
               fs' (key outp) = Some (H5 h5) \<and>
               map_of (h5_datasets h5) ''res0'' = Some d \<and> h5_data d = Raster plane"
      by (rule exI[of _ ?fs'], rule exI[of _ ?h5], rule exI[of _ ?d]) (intro conjI e a1 a2 a3)
  }
qed

text \<open>The example folder, stitched.\<close>

lemma example_stitching:
  "example_disk (p_parent example_mrc, p_stem example_mrc @ p_suffix example_mrc @ ''.mdoc'')
      = Some (Mdoc [''PixelSpacing = 1.5\<newline>''])"
  "fst (get_mag decimal_float
          (path_str (with_suffix example_mrc (p_suffix example_mrc @ ''.mdoc'')))
          (Some [''PixelSpacing = 1.5\<newline>''])) = Some (3 / 2)"
  "example_stitcher img
     (Extractpieces (p_parent example_mrc) (p_name example_mrc) ''montage_plf'') example_disk
     = (True, example_disk((''d'', ''montage_plf'') \<mapsto> Other))"
  "example_stitcher img
     (Blendmont (p_parent example_mrc) (p_name example_mrc) ''montage_plf''
        (p_stem example_mrc @ ''_blended.mrc'') ''MONTAGE_EDGES'')
     (example_disk((''d'', ''montage_plf'') \<mapsto> Other))
     = (True, example_disk((''d'', ''montage_plf'') \<mapsto> Other,
                           (''d'', ''a_blended.mrc'') \<mapsto> Mrc img,
                           (''d'', ''MONTAGE_EDGES.xef'') \<mapsto> Other))"
  "(example_disk((''d'', ''montage_plf'') \<mapsto> Other, (''d'', ''a_blended.mrc'') \<mapsto> Mrc img,
                 (''d'', ''MONTAGE_EDGES.xef'') \<mapsto> Other))
     (p_parent example_mrc, p_stem example_mrc @ ''_blended.mrc'') = Some (Mrc img)"
  by (simp_all add: example_disk_def example_mrc_def example_stitcher_def
      get_mag_def split_def strip_def is_space_def decimal_float_def is_digit_def
      path_str_def with_suffix_def p_name_def)

text \<open>A montage whose blended raster is a stack of two planes.\<close>

theorem dimensionality_error_witness:
  "ndim (zeros [2, 5, 7]) \<noteq> 2 \<and>
   process_mrc_file (example_stitcher (zeros [2, 5, 7])) resample_zero decimal_float True
     example_mrc example_disk
     = Some (False, example_disk((''d'', ''montage_plf'') \<mapsto> Other,
                                 (''d'', ''a_blended.mrc'') \<mapsto> Mrc (zeros [2, 5, 7]),
                                 (''d'', ''MONTAGE_EDGES.xef'') \<mapsto> Other))"
proof -
  let ?img = "zeros [2, 5, 7]"
  have nd: "ndim ?img \<noteq> 2" by (simp add: ndim_def zeros_def)
  from dimensionality_error[of example_disk example_mrc "[''PixelSpacing = 1.5\<newline>'']"
      decimal_float "3 / 2" "example_stitcher ?img"
      "example_disk((''d'', ''montage_plf'') \<mapsto> Other)"
      "example_disk((''d'', ''montage_plf'') \<mapsto> Other, (''d'', ''a_blended.mrc'') \<mapsto> Mrc ?img,
                    (''d'', ''MONTAGE_EDGES.xef'') \<mapsto> Other)"
      ?img resample_zero _ _ _ _ _ _ True,
      OF example_stitching(1) example_stitching(2) example_stitching(3) example_stitching(4)
         example_stitching(5)]
    nd
  show ?thesis by blast
qed

text \<open>
  A 3D stack is not accepted by the OME-TIFF emitter, and the orchestrator reports the
  file as failed, also when the check box for the HDF5 container is on.
\<close>

theorem stack_rejected_counterexample:
  "ndim (zeros [2, 5, 7]) = 3 \<and>
   create_ome_bigtiff_pyramid resample_zero
     (Map.empty((''d'', ''a_blended.mrc'') \<mapsto> Mrc (zeros [2, 5, 7])))
     (''d'', ''a_blended.mrc'') (''d'', ''a.ome.tif'') (3 / 2) 512 256 ''deflate'' 1
     = Some (Inl (ValueError ''Image must be 2D.'')) \<and>
   map_option fst
     (process_mrc_file (example_stitcher (zeros [2, 5, 7])) resample_zero decimal_float True
        example_mrc example_disk) = Some False"
proof -
  let ?img = "zeros [2, 5, 7]"
  have nd: "ndim ?img = 3" by (simp add: ndim_def zeros_def)
  have t: "create_ome_bigtiff_pyramid resample_zero
     (Map.empty((''d'', ''a_blended.mrc'') \<mapsto> Mrc ?img))
     (''d'', ''a_blended.mrc'') (''d'', ''a.ome.tif'') (3 / 2) 512 256 ''deflate'' 1
     = Some (Inl (ValueError ''Image must be 2D.''))"
    using nd by (simp add: create_ome_bigtiff_pyramid_def read_mrc_def)
  have no: "\<forall>i. (example_disk((''d'', ''montage_plf'') \<mapsto> Other, (''d'', ''a_blended.mrc'') \<mapsto> Mrc ?img,
                    (''d'', ''MONTAGE_EDGES.xef'') \<mapsto> Other))
     (p_parent example_mrc, p_stem example_mrc @ ''_blended.mrc'') = Some (Mrc i) \<longrightarrow> ndim i \<noteq> 2"
    using nd by (simp add: example_mrc_def)
  have "process_mrc_file (example_stitcher ?img) resample_zero decimal_float True
        example_mrc example_disk
     = Some (False, example_disk((''d'', ''montage_plf'') \<mapsto> Other,
                                 (''d'', ''a_blended.mrc'') \<mapsto> Mrc ?img,
                                 (''d'', ''MONTAGE_EDGES.xef'') \<mapsto> Other))"
    by (rule process_not_2d[OF example_stitching(1) example_stitching(2) example_stitching(3)
          example_stitching(4) no])
  with nd t show ?thesis by simp
qed




end
